theory Spec2Isabelle
  imports Complex_Main
begin

section \<open>Data model (types/models)\<close>

text \<open>
  A \<open>number\<close> of the program is a double. It is modelled as a real, and the
  calculations are embedded twice. The functions under the names of the source compute
  in exact arithmetic. The functions with the suffix \<open>_fl\<close> take the rounding \<open>r\<close>
  that the machine applies to the result of every arithmetic operation: \<open>fl64\<close>, rounding
  to the nearest double, is the arithmetic of the program, and the identity gives the
  exact functions back. NaN, the signed zero, overflow and subnormal numbers are outside
  the model; the one infinite value the calculations produce on purpose, the result
  \<open>Infinity\<close> of \<open>calculateMonthsToGoal\<close>, is a constructor of its result type.

  \<open>IncomeType\<close> and \<open>IncomeFrequency\<close> are string enums; at run time their values are
  strings, and \<open>convertToMonthly\<close> has a branch for a string that is none of the four
  frequencies. They are modelled as strings. A date is modelled as its time value.
\<close>

type_synonym number = real

type_synonym IncomeType = string

type_synonym IncomeFrequency = string

type_synonym Date = int

record IncomeSource =
  id_f :: string
  name :: string
  amount :: number
  type :: IncomeType
  frequency :: IncomeFrequency
  isActive :: bool
  createdAt :: Date
  updatedAt :: Date

record MonthlyIncome =
  id_f :: string
  year :: number
  month :: number
  incomeSourceId :: "string option"
  amount :: number
  name :: string
  type :: IncomeType
  isActive :: bool
  isRecurring :: bool
  createdAt :: Date
  updatedAt :: Date

section \<open>The insertion-ordered Map of the breakdown\<close>

text \<open>
  The breakdown groups amounts in a \<open>Map\<close>, whose entries are iterated in the order in
  which their keys were first set. It is modelled as an association list with distinct
  keys: \<open>Map_set\<close> overwrites the value of a key that is present, in place, and appends
  a new key at the end.
\<close>

type_synonym ('k, 'v) Map = "('k \<times> 'v) list"

fun Map_get :: "('k, 'v) Map \<Rightarrow> 'k \<Rightarrow> 'v option" where
  "Map_get [] k = None"
| "Map_get ((k', v') # m) k = (if k' = k then Some v' else Map_get m k)"

fun Map_set :: "('k, 'v) Map \<Rightarrow> 'k \<Rightarrow> 'v \<Rightarrow> ('k, 'v) Map" where
  "Map_set [] k v = [(k, v)]"
| "Map_set ((k', v') # m) k v = (if k' = k then (k, v) # m else (k', v') # Map_set m k v)"

text \<open>\<open>breakdown.get(t) || 0\<close>: an absent key and a stored zero both give 0.\<close>

definition get_or_zero :: "(IncomeType, number) Map \<Rightarrow> IncomeType \<Rightarrow> number" where
  "get_or_zero m t = (case Map_get m t of None \<Rightarrow> 0 | Some v \<Rightarrow> (if v = 0 then 0 else v))"

section \<open>utils/calculations\<close>

subsection \<open>Frequency normalizer\<close>

definition convertToMonthly :: "number \<Rightarrow> IncomeFrequency \<Rightarrow> number" where
  "convertToMonthly a f =
     (if f = ''monthly'' then a
      else if f = ''weekly'' then a * 52 / 12
      else if f = ''yearly'' then a / 12
      else if f = ''one_time'' then 0
      else 0)"

definition convertToYearly :: "number \<Rightarrow> IncomeFrequency \<Rightarrow> number" where
  "convertToYearly a f = convertToMonthly a f * 12"

subsection \<open>Income aggregator\<close>

definition calculateMonthlyIncome :: "IncomeSource list \<Rightarrow> number" where
  "calculateMonthlyIncome sources =
     foldl (\<lambda>tot source. tot + convertToMonthly (IncomeSource.amount source) (frequency source))
       0 (filter IncomeSource.isActive sources)"

definition calculateYearlyIncome :: "IncomeSource list \<Rightarrow> number" where
  "calculateYearlyIncome sources = calculateMonthlyIncome sources * 12"

definition calculateMonthlyIncomeFromData :: "MonthlyIncome list \<Rightarrow> number" where
  "calculateMonthlyIncomeFromData monthlyIncomes =
     foldl (\<lambda>tot income. tot + MonthlyIncome.amount income)
       0 (filter MonthlyIncome.isActive monthlyIncomes)"

text \<open>
  \<open>yearData.get(month) || []\<close>: the entries of the month, or the empty list for a month
  that the map does not hold (an array, even an empty one, is never replaced).
\<close>

definition monthIncomes :: "(nat \<rightharpoonup> MonthlyIncome list) \<Rightarrow> nat \<Rightarrow> MonthlyIncome list" where
  "monthIncomes yearData m = (case yearData m of None \<Rightarrow> [] | Some es \<Rightarrow> es)"

text \<open>The loop \<open>for (let month = 1; month <= 12; month++)\<close>, from any month and total.\<close>

function yearLoop :: "(nat \<rightharpoonup> MonthlyIncome list) \<Rightarrow> nat \<Rightarrow> number \<Rightarrow> number" where
  "yearLoop yearData m tot =
     (if m \<le> 12
      then yearLoop yearData (m + 1) (tot + calculateMonthlyIncomeFromData (monthIncomes yearData m))
      else tot)"
  by pat_completeness auto
termination
  by (relation "measure (\<lambda>(yearData, m, tot). 13 - m)") auto

definition calculateYearlyIncomeFromData :: "(nat \<rightharpoonup> MonthlyIncome list) \<Rightarrow> number" where
  "calculateYearlyIncomeFromData yearData = yearLoop yearData 1 0"

subsection \<open>Savings calculator\<close>

definition calculateMonthlySavings :: "number \<Rightarrow> number \<Rightarrow> number" where
  "calculateMonthlySavings monthlyIncome savingsPercentage =
     (monthlyIncome * savingsPercentage) / 100"

definition calculateYearlySavings :: "number \<Rightarrow> number \<Rightarrow> number" where
  "calculateYearlySavings monthlyIncome savingsPercentage =
     calculateMonthlySavings monthlyIncome savingsPercentage * 12"

definition calculateSavingsProjection ::
  "number \<Rightarrow> number \<Rightarrow> number \<Rightarrow> number \<Rightarrow> number \<Rightarrow> number" where
  "calculateSavingsProjection currentSavings alreadySaved monthlyIncome savingsPercentage years =
     (let yearlySavings = calculateYearlySavings monthlyIncome savingsPercentage;
          totalSaved = yearlySavings * years
      in currentSavings + alreadySaved + totalSaved)"

subsection \<open>Goal progress calculator\<close>

text \<open>The result of \<open>calculateMonthsToGoal\<close>: a finite number or \<open>Infinity\<close>.\<close>

datatype months = Finite number | Infinity

definition calculateGoalProgress :: "number \<Rightarrow> number \<Rightarrow> number" where
  "calculateGoalProgress current target =
     (if target = 0 then 0 else min ((current / target) * 100) 100)"


subsection \<open>Result records\<close>

record Projection =
  years :: number
  total :: number
  saved :: number

record BreakdownItem =
  type :: IncomeType
  amount :: number
  percentage :: number

record CalculationResults =
  monthlyIncome :: number
  yearlyIncome :: number
  monthlySavings :: number
  yearlySavings :: number
  projections :: "Projection list"
  incomeBreakdown :: "BreakdownItem list"

subsection \<open>Breakdown aggregator\<close>

definition percentageOf :: "number \<Rightarrow> IncomeType \<times> number \<Rightarrow> BreakdownItem" where
  "percentageOf totalMonthly e =
     \<lparr>type = fst e, amount = snd e,
      percentage = (if totalMonthly > 0 then (snd e / totalMonthly) * 100 else 0)\<rparr>"

definition groupSource :: "(IncomeType, number) Map \<Rightarrow> IncomeSource \<Rightarrow> (IncomeType, number) Map" where
  "groupSource breakdown source =
     (let monthlyAmount = convertToMonthly (IncomeSource.amount source) (frequency source);
          current = get_or_zero breakdown (IncomeSource.type source)
      in Map_set breakdown (IncomeSource.type source) (current + monthlyAmount))"

definition calculateIncomeBreakdown :: "IncomeSource list \<Rightarrow> BreakdownItem list" where
  "calculateIncomeBreakdown sources =
     (let activeSources = filter IncomeSource.isActive sources;
          totalMonthly = calculateMonthlyIncome activeSources;
          breakdown = foldl groupSource [] activeSources
      in map (percentageOf totalMonthly) breakdown)"

definition groupIncome :: "(IncomeType, number) Map \<Rightarrow> MonthlyIncome \<Rightarrow> (IncomeType, number) Map" where
  "groupIncome breakdown income =
     (let current = get_or_zero breakdown (MonthlyIncome.type income)
      in Map_set breakdown (MonthlyIncome.type income) (current + MonthlyIncome.amount income))"

definition calculateIncomeBreakdownFromData :: "MonthlyIncome list \<Rightarrow> BreakdownItem list" where
  "calculateIncomeBreakdownFromData monthlyIncomes =
     (let activeIncomes = filter MonthlyIncome.isActive monthlyIncomes;
          totalMonthly = calculateMonthlyIncomeFromData activeIncomes;
          breakdown = foldl groupIncome [] activeIncomes
      in map (percentageOf totalMonthly) breakdown)"

subsection \<open>Results composer\<close>

definition projectionYears :: "number list" where
  "projectionYears = [1, 3, 5, 10]"

definition calculateResultsFromMonthlyData ::
  "MonthlyIncome list \<Rightarrow> (nat \<rightharpoonup> MonthlyIncome list) \<Rightarrow> number \<Rightarrow> number \<Rightarrow> number
     \<Rightarrow> CalculationResults" where
  "calculateResultsFromMonthlyData currentMonthIncomes yearData currentSavings alreadySaved
       savingsPercentage =
     (let monthlyIncome = calculateMonthlyIncomeFromData currentMonthIncomes;
          yearlyIncome = calculateYearlyIncomeFromData yearData;
          monthlySavings = calculateMonthlySavings monthlyIncome savingsPercentage;
          yearlySavings = calculateYearlySavings monthlyIncome savingsPercentage;
          projections = map (\<lambda>years.
              \<lparr>years = years,
               total = calculateSavingsProjection currentSavings alreadySaved monthlyIncome
                         savingsPercentage years,
               saved = yearlySavings * years\<rparr>) projectionYears;
          incomeBreakdown = calculateIncomeBreakdownFromData currentMonthIncomes
      in \<lparr>CalculationResults.monthlyIncome = monthlyIncome,
          yearlyIncome = yearlyIncome,
          CalculationResults.monthlySavings = monthlySavings,
          yearlySavings = yearlySavings,
          projections = projections,
          incomeBreakdown = incomeBreakdown\<rparr>)"

definition calculateResults ::
  "IncomeSource list \<Rightarrow> number \<Rightarrow> number \<Rightarrow> number \<Rightarrow> CalculationResults" where
  "calculateResults sources currentSavings alreadySaved savingsPercentage =
     (let monthlyIncome = calculateMonthlyIncome sources;
          yearlyIncome = calculateYearlyIncome sources;
          monthlySavings = calculateMonthlySavings monthlyIncome savingsPercentage;
          yearlySavings = calculateYearlySavings monthlyIncome savingsPercentage;
          projections = map (\<lambda>years.
              \<lparr>years = years,
               total = calculateSavingsProjection currentSavings alreadySaved monthlyIncome
                         savingsPercentage years,
               saved = yearlySavings * years\<rparr>) projectionYears;
          incomeBreakdown = calculateIncomeBreakdown sources
      in \<lparr>CalculationResults.monthlyIncome = monthlyIncome,
          yearlyIncome = yearlyIncome,
          CalculationResults.monthlySavings = monthlySavings,
          yearlySavings = yearlySavings,
          projections = projections,
          incomeBreakdown = incomeBreakdown\<rparr>)"

subsection \<open>Scenario generator\<close>

record WhatIfScenario =
  savingsPercentage :: number
  monthlyIncome :: number
  monthlySavings :: number
  projection5Years :: number
  projection10Years :: number

definition createWhatIfScenario :: "number \<Rightarrow> number \<Rightarrow> number \<Rightarrow> number \<Rightarrow> WhatIfScenario" where
  "createWhatIfScenario = (\<lambda>monthlyIncome savingsPercentage currentSavings alreadySaved.
      let monthlySavings = calculateMonthlySavings monthlyIncome savingsPercentage
      in \<lparr>savingsPercentage = savingsPercentage,
          monthlyIncome = monthlyIncome,
          monthlySavings = monthlySavings,
          projection5Years = calculateSavingsProjection currentSavings alreadySaved
                               monthlyIncome savingsPercentage 5,
          projection10Years = calculateSavingsProjection currentSavings alreadySaved
                                monthlyIncome savingsPercentage 10\<rparr>)"

text \<open>The parameter \<open>percentages\<close> has a default: \<open>None\<close> is the call that omits it.\<close>

definition createWhatIfScenarios ::
  "number \<Rightarrow> number \<Rightarrow> number \<Rightarrow> number list option \<Rightarrow> WhatIfScenario list" where
  "createWhatIfScenarios = (\<lambda>monthlyIncome currentSavings alreadySaved percentages.
     map (\<lambda>percentage. createWhatIfScenario monthlyIncome percentage currentSavings alreadySaved)
       (case percentages of None \<Rightarrow> [10, 15, 20, 30, 40, 50] | Some ps \<Rightarrow> ps))"

section \<open>Double precision\<close>

text \<open>Rounding to the nearest integer, a tie going to the even one.\<close>

definition rne :: "real \<Rightarrow> int" where
  "rne y = (let f = \<lfloor>y\<rfloor>; d = y - of_int f
            in if d < 1 / 2 then f else if 1 / 2 < d then f + 1
               else if even f then f else f + 1)"

text \<open>
  A positive number is scaled by powers of two until it lies between \<open>2 ^ 52\<close> and
  \<open>2 ^ 53\<close>; the second component is the power of two that scales it back.
\<close>

function normUp :: "real \<Rightarrow> real \<Rightarrow> real \<times> real" where
  "normUp y s = (if 0 < y \<and> y < 2 ^ 52 then normUp (2 * y) (s / 2) else (y, s))"
  by pat_completeness auto
termination
proof (relation "measure (\<lambda>(y, s). nat \<lceil>2 ^ 52 / y\<rceil>)")
  show "wf (measure (\<lambda>(y, s). nat \<lceil>2 ^ 52 / y\<rceil>))" by simp
next
  fix y s :: real
  assume a: "0 < y \<and> y < 2 ^ 52"
  define z where "z = 2 ^ 52 / y"
  have z: "1 < z" using a by (simp add: z_def)
  have "\<lceil>z / 2\<rceil> < \<lceil>z\<rceil>"
  proof -
    have "z \<le> of_int \<lceil>z\<rceil>" by (rule le_of_int_ceiling)
    moreover have "2 \<le> \<lceil>z\<rceil>" using z by linarith
    then have "(2::real) \<le> of_int \<lceil>z\<rceil>" by linarith
    ultimately have "z / 2 \<le> of_int \<lceil>z\<rceil> - 1" by linarith
    then have "z / 2 \<le> of_int (\<lceil>z\<rceil> - 1)" by simp
    then have "\<lceil>z / 2\<rceil> \<le> \<lceil>z\<rceil> - 1" by (simp only: ceiling_le_iff)
    then show ?thesis by simp
  qed
  moreover have "0 < \<lceil>z\<rceil>" using z by linarith
  moreover have "2 ^ 52 / (2 * y) = z / 2" by (simp add: z_def)
  ultimately show "((2 * y, s / 2), (y, s)) \<in> measure (\<lambda>(y, s). nat \<lceil>2 ^ 52 / y\<rceil>)"
    by (simp add: z_def)
qed

function normDown :: "real \<Rightarrow> real \<Rightarrow> real \<times> real" where
  "normDown y s = (if 2 ^ 53 \<le> y then normDown (y / 2) (2 * s) else (y, s))"
  by pat_completeness auto
termination
proof (relation "measure (\<lambda>(y, s). nat \<lfloor>y\<rfloor>)")
  show "wf (measure (\<lambda>(y, s). nat \<lfloor>y\<rfloor>))" by simp
next
  fix y s :: real
  assume a: "2 ^ 53 \<le> y"
  then have y: "1 \<le> y" by simp
  then have pos: "0 < \<lfloor>y\<rfloor>" by linarith
  then have "(1::real) \<le> of_int \<lfloor>y\<rfloor>" by linarith
  moreover have "y < of_int \<lfloor>y\<rfloor> + 1" by linarith
  ultimately have "y / 2 < of_int \<lfloor>y\<rfloor>" by linarith
  then have "\<lfloor>y / 2\<rfloor> < \<lfloor>y\<rfloor>" by (simp only: floor_less_iff)
  moreover note pos
  ultimately show "((y / 2, 2 * s), (y, s)) \<in> measure (\<lambda>(y, s). nat \<lfloor>y\<rfloor>)"
    by simp
qed

text \<open>
  The nearest double: 53 significant bits, ties to even. The exponent is not bounded, so
  the function is the arithmetic of the program on the normal range of the doubles.
\<close>

definition fl64 :: "real \<Rightarrow> real" where
  "fl64 x = (if x = 0 then 0
             else case normUp \<bar>x\<bar> 1 of (y, s) \<Rightarrow>
                  case normDown y s of (m, c) \<Rightarrow> sgn x * (of_int (rne m) * c))"

text \<open>A rounding whose relative error is at most \<open>u\<close>; \<open>u = 0\<close> is exact arithmetic.\<close>

definition rounds_within :: "real \<Rightarrow> (real \<Rightarrow> real) \<Rightarrow> bool" where
  "rounds_within u r \<longleftrightarrow> 0 \<le> u \<and> u < 1 \<and> (\<forall>x. \<bar>r x - x\<bar> \<le> u * \<bar>x\<bar>)"

section \<open>utils/calculations, every operation rounded\<close>

text \<open>
  The same functions with the rounding \<open>r\<close> applied to the result of each addition,
  multiplication and division of the source, in the order in which the source evaluates
  them.
\<close>

definition convertToMonthly_fl :: "(real \<Rightarrow> real) \<Rightarrow> number \<Rightarrow> IncomeFrequency \<Rightarrow> number" where
  "convertToMonthly_fl r a f =
     (if f = ''monthly'' then a
      else if f = ''weekly'' then r (r (a * 52) / 12)
      else if f = ''yearly'' then r (a / 12)
      else if f = ''one_time'' then 0
      else 0)"

definition calculateMonthlyIncome_fl :: "(real \<Rightarrow> real) \<Rightarrow> IncomeSource list \<Rightarrow> number" where
  "calculateMonthlyIncome_fl r sources =
     foldl (\<lambda>tot source.
              r (tot + convertToMonthly_fl r (IncomeSource.amount source) (frequency source)))
       0 (filter IncomeSource.isActive sources)"

definition calculateYearlyIncome_fl :: "(real \<Rightarrow> real) \<Rightarrow> IncomeSource list \<Rightarrow> number" where
  "calculateYearlyIncome_fl r sources = r (calculateMonthlyIncome_fl r sources * 12)"

definition calculateMonthlyIncomeFromData_fl :: "(real \<Rightarrow> real) \<Rightarrow> MonthlyIncome list \<Rightarrow> number" where
  "calculateMonthlyIncomeFromData_fl r monthlyIncomes =
     foldl (\<lambda>tot income. r (tot + MonthlyIncome.amount income))
       0 (filter MonthlyIncome.isActive monthlyIncomes)"

function yearLoop_fl ::
  "(real \<Rightarrow> real) \<Rightarrow> (nat \<rightharpoonup> MonthlyIncome list) \<Rightarrow> nat \<Rightarrow> number \<Rightarrow> number" where
  "yearLoop_fl r yearData m tot =
     (if m \<le> 12
      then yearLoop_fl r yearData (m + 1)
             (r (tot + calculateMonthlyIncomeFromData_fl r (monthIncomes yearData m)))
      else tot)"
  by pat_completeness auto
termination
  by (relation "measure (\<lambda>(r, yearData, m, tot). 13 - m)") auto

definition calculateYearlyIncomeFromData_fl ::
  "(real \<Rightarrow> real) \<Rightarrow> (nat \<rightharpoonup> MonthlyIncome list) \<Rightarrow> number" where
  "calculateYearlyIncomeFromData_fl r yearData = yearLoop_fl r yearData 1 0"

definition calculateMonthlySavings_fl :: "(real \<Rightarrow> real) \<Rightarrow> number \<Rightarrow> number \<Rightarrow> number" where
  "calculateMonthlySavings_fl = (\<lambda>r monthlyIncome savingsPercentage.
     r (r (monthlyIncome * savingsPercentage) / 100))"

definition calculateYearlySavings_fl :: "(real \<Rightarrow> real) \<Rightarrow> number \<Rightarrow> number \<Rightarrow> number" where
  "calculateYearlySavings_fl = (\<lambda>r monthlyIncome savingsPercentage.
     r (calculateMonthlySavings_fl r monthlyIncome savingsPercentage * 12))"

definition calculateSavingsProjection_fl ::
  "(real \<Rightarrow> real) \<Rightarrow> number \<Rightarrow> number \<Rightarrow> number \<Rightarrow> number \<Rightarrow> number \<Rightarrow> number" where
  "calculateSavingsProjection_fl =
     (\<lambda>r currentSavings alreadySaved monthlyIncome savingsPercentage years.
      let yearlySavings = calculateYearlySavings_fl r monthlyIncome savingsPercentage;
          totalSaved = r (yearlySavings * years)
      in r (r (currentSavings + alreadySaved) + totalSaved))"

definition percentageOf_fl ::
  "(real \<Rightarrow> real) \<Rightarrow> number \<Rightarrow> IncomeType \<times> number \<Rightarrow> BreakdownItem" where
  "percentageOf_fl r totalMonthly e =
     \<lparr>type = fst e, amount = snd e,
      percentage = (if totalMonthly > 0 then r (r (snd e / totalMonthly) * 100) else 0)\<rparr>"

definition groupSource_fl ::
  "(real \<Rightarrow> real) \<Rightarrow> (IncomeType, number) Map \<Rightarrow> IncomeSource \<Rightarrow> (IncomeType, number) Map" where
  "groupSource_fl r breakdown source =
     (let monthlyAmount = convertToMonthly_fl r (IncomeSource.amount source) (frequency source);
          current = get_or_zero breakdown (IncomeSource.type source)
      in Map_set breakdown (IncomeSource.type source) (r (current + monthlyAmount)))"

definition calculateIncomeBreakdown_fl ::
  "(real \<Rightarrow> real) \<Rightarrow> IncomeSource list \<Rightarrow> BreakdownItem list" where
  "calculateIncomeBreakdown_fl r sources =
     (let activeSources = filter IncomeSource.isActive sources;
          totalMonthly = calculateMonthlyIncome_fl r activeSources;
          breakdown = foldl (groupSource_fl r) [] activeSources
      in map (percentageOf_fl r totalMonthly) breakdown)"

definition groupIncome_fl ::
  "(real \<Rightarrow> real) \<Rightarrow> (IncomeType, number) Map \<Rightarrow> MonthlyIncome \<Rightarrow> (IncomeType, number) Map" where
  "groupIncome_fl r breakdown income =
     (let current = get_or_zero breakdown (MonthlyIncome.type income)
      in Map_set breakdown (MonthlyIncome.type income) (r (current + MonthlyIncome.amount income)))"

definition calculateIncomeBreakdownFromData_fl ::
  "(real \<Rightarrow> real) \<Rightarrow> MonthlyIncome list \<Rightarrow> BreakdownItem list" where
  "calculateIncomeBreakdownFromData_fl r monthlyIncomes =
     (let activeIncomes = filter MonthlyIncome.isActive monthlyIncomes;
          totalMonthly = calculateMonthlyIncomeFromData_fl r activeIncomes;
          breakdown = foldl (groupIncome_fl r) [] activeIncomes
      in map (percentageOf_fl r totalMonthly) breakdown)"

definition calculateResultsFromMonthlyData_fl ::
  "(real \<Rightarrow> real) \<Rightarrow> MonthlyIncome list \<Rightarrow> (nat \<rightharpoonup> MonthlyIncome list) \<Rightarrow> number \<Rightarrow> number
     \<Rightarrow> number \<Rightarrow> CalculationResults" where
  "calculateResultsFromMonthlyData_fl =
     (\<lambda>r currentMonthIncomes yearData currentSavings alreadySaved savingsPercentage.
      let monthlyIncome = calculateMonthlyIncomeFromData_fl r currentMonthIncomes;
          yearlyIncome = calculateYearlyIncomeFromData_fl r yearData;
          monthlySavings = calculateMonthlySavings_fl r monthlyIncome savingsPercentage;
          yearlySavings = calculateYearlySavings_fl r monthlyIncome savingsPercentage;
          projections = map (\<lambda>years.
              \<lparr>years = years,
               total = calculateSavingsProjection_fl r currentSavings alreadySaved monthlyIncome
                         savingsPercentage years,
               saved = r (yearlySavings * years)\<rparr>) projectionYears;
          incomeBreakdown = calculateIncomeBreakdownFromData_fl r currentMonthIncomes
      in \<lparr>CalculationResults.monthlyIncome = monthlyIncome,
          yearlyIncome = yearlyIncome,
          CalculationResults.monthlySavings = monthlySavings,
          yearlySavings = yearlySavings,
          projections = projections,
          incomeBreakdown = incomeBreakdown\<rparr>)"

definition calculateResults_fl ::
  "(real \<Rightarrow> real) \<Rightarrow> IncomeSource list \<Rightarrow> number \<Rightarrow> number \<Rightarrow> number \<Rightarrow> CalculationResults" where
  "calculateResults_fl =
     (\<lambda>r sources currentSavings alreadySaved savingsPercentage.
      let monthlyIncome = calculateMonthlyIncome_fl r sources;
          yearlyIncome = calculateYearlyIncome_fl r sources;
          monthlySavings = calculateMonthlySavings_fl r monthlyIncome savingsPercentage;
          yearlySavings = calculateYearlySavings_fl r monthlyIncome savingsPercentage;
          projections = map (\<lambda>years.
              \<lparr>years = years,
               total = calculateSavingsProjection_fl r currentSavings alreadySaved monthlyIncome
                         savingsPercentage years,
               saved = r (yearlySavings * years)\<rparr>) projectionYears;
          incomeBreakdown = calculateIncomeBreakdown_fl r sources
      in \<lparr>CalculationResults.monthlyIncome = monthlyIncome,
          yearlyIncome = yearlyIncome,
          CalculationResults.monthlySavings = monthlySavings,
          yearlySavings = yearlySavings,
          projections = projections,
          incomeBreakdown = incomeBreakdown\<rparr>)"

section \<open>The two aggregation modes\<close>

text \<open>
  The specification calls the two modes of the income aggregator equivalent when the
  per-month entries are the materialisation of the sources. This relation follows its
  words: the entry carries the active flag of the source and, for an active source, the
  amount that \<open>convertToMonthly\<close> gives for the source.
\<close>

definition materializes :: "IncomeSource \<Rightarrow> MonthlyIncome \<Rightarrow> bool" where
  "materializes s e \<longleftrightarrow>
     MonthlyIncome.isActive e = IncomeSource.isActive s
     \<and> (IncomeSource.isActive s \<longrightarrow>
          MonthlyIncome.amount e = convertToMonthly (IncomeSource.amount s) (frequency s))"

section \<open>Sample records\<close>

text \<open>
  Snapshots on which the theorems below are run: two active sources and an inactive one
  with entries of the same month, and records whose monthly total is zero.
\<close>

definition sampleSources :: "IncomeSource list" where
  "sampleSources =
     [\<lparr>IncomeSource.id_f = ''s1'', name = ''Job'', amount = 3000, type = ''salary'',
        frequency = ''monthly'', isActive = True, createdAt = 0, updatedAt = 0\<rparr>,
      \<lparr>IncomeSource.id_f = ''s2'', name = ''Fund'', amount = 1200, type = ''investment'',
        frequency = ''yearly'', isActive = True, createdAt = 0, updatedAt = 0\<rparr>,
      \<lparr>IncomeSource.id_f = ''s3'', name = ''Gig'', amount = 100, type = ''freelance'',
        frequency = ''weekly'', isActive = False, createdAt = 0, updatedAt = 0\<rparr>]"

definition sampleEntries :: "MonthlyIncome list" where
  "sampleEntries =
     [\<lparr>MonthlyIncome.id_f = ''m1'', year = 2025, month = 3, incomeSourceId = Some ''s1'',
        amount = 3000, name = ''Job'', type = ''salary'', isActive = True, isRecurring = True,
        createdAt = 0, updatedAt = 0\<rparr>,
      \<lparr>MonthlyIncome.id_f = ''m2'', year = 2025, month = 3, incomeSourceId = Some ''s2'',
        amount = 100, name = ''Fund'', type = ''investment'', isActive = True, isRecurring = True,
        createdAt = 0, updatedAt = 0\<rparr>,
      \<lparr>MonthlyIncome.id_f = ''m3'', year = 2025, month = 3, incomeSourceId = Some ''s3'',
        amount = 500, name = ''Gig'', type = ''freelance'', isActive = False, isRecurring = True,
        createdAt = 0, updatedAt = 0\<rparr>]"

definition zeroSources :: "IncomeSource list" where
  "zeroSources =
     [\<lparr>IncomeSource.id_f = ''s4'', name = ''Prize'', amount = 700, type = ''other'',
        frequency = ''one_time'', isActive = True, createdAt = 0, updatedAt = 0\<rparr>]"

definition zeroEntries :: "MonthlyIncome list" where
  "zeroEntries =
     [\<lparr>MonthlyIncome.id_f = ''m4'', year = 2025, month = 4, incomeSourceId = None,
        amount = 0, name = ''Unpaid'', type = ''other'', isActive = True, isRecurring = False,
        createdAt = 0, updatedAt = 0\<rparr>]"

text \<open>Records on which rounding shows: a weekly source, and entries of 1, 2 and 3.\<close>

definition weeklySources :: "IncomeSource list" where
  "weeklySources =
     [\<lparr>IncomeSource.id_f = ''s5'', name = ''Shift'', amount = 350, type = ''salary'',
        frequency = ''weekly'', isActive = True, createdAt = 0, updatedAt = 0\<rparr>]"

definition smallEntries :: "MonthlyIncome list" where
  "smallEntries =
     [\<lparr>MonthlyIncome.id_f = ''m5'', year = 2025, month = 5, incomeSourceId = None,
        amount = 1, name = ''Tip'', type = ''other'', isActive = True, isRecurring = False,
        createdAt = 0, updatedAt = 0\<rparr>,
      \<lparr>MonthlyIncome.id_f = ''m6'', year = 2025, month = 5, incomeSourceId = None,
        amount = 2, name = ''Gift'', type = ''passive'', isActive = True, isRecurring = False,
        createdAt = 0, updatedAt = 0\<rparr>]"

definition smallSources :: "IncomeSource list" where
  "smallSources =
     [\<lparr>IncomeSource.id_f = ''s6'', name = ''Tip'', amount = 1, type = ''other'',
        frequency = ''monthly'', isActive = True, createdAt = 0, updatedAt = 0\<rparr>,
      \<lparr>IncomeSource.id_f = ''s7'', name = ''Gift'', amount = 2, type = ''passive'',
        frequency = ''monthly'', isActive = True, createdAt = 0, updatedAt = 0\<rparr>]"

definition threeEntries :: "MonthlyIncome list" where
  "threeEntries =
     [\<lparr>MonthlyIncome.id_f = ''m7'', year = 2025, month = 6, incomeSourceId = None,
        amount = 3, name = ''Refund'', type = ''other'', isActive = True, isRecurring = False,
        createdAt = 0, updatedAt = 0\<rparr>]"

section \<open>Sums computed by the folds\<close>

lemma foldl_add_sum_list:
  "foldl (\<lambda>tot x. tot + f x) a xs = (a::real) + sum_list (map f xs)"
  by (induction xs arbitrary: a) (simp_all add: add.assoc)

lemma calculateMonthlyIncome_sum:
  "calculateMonthlyIncome sources =
     sum_list (map (\<lambda>s. convertToMonthly (IncomeSource.amount s) (frequency s))
                 (filter IncomeSource.isActive sources))"
  by (simp add: calculateMonthlyIncome_def foldl_add_sum_list)

lemma calculateMonthlyIncomeFromData_sum:
  "calculateMonthlyIncomeFromData es =
     sum_list (map MonthlyIncome.amount (filter MonthlyIncome.isActive es))"
  by (simp add: calculateMonthlyIncomeFromData_def foldl_add_sum_list)

lemma yearLoop_sum:
  "m \<le> 13 \<Longrightarrow> yearLoop yd m tot =
     tot + (\<Sum>k = m..<13. calculateMonthlyIncomeFromData (monthIncomes yd k))"
proof (induction yd m tot rule: yearLoop.induct)
  case (1 yd m tot)
  show ?case
  proof (cases "m \<le> 12")
    case True
    then have "yearLoop yd m tot = yearLoop yd (m + 1) (tot + calculateMonthlyIncomeFromData (monthIncomes yd m))"
      by (subst yearLoop.simps) simp
    also have "\<dots> = tot + calculateMonthlyIncomeFromData (monthIncomes yd m)
         + (\<Sum>k = m + 1..<13. calculateMonthlyIncomeFromData (monthIncomes yd k))"
      using "1.IH" [OF True] True by simp
    also have "\<dots> = tot + (\<Sum>k = m..<13. calculateMonthlyIncomeFromData (monthIncomes yd k))"
      using True by (simp add: sum.atLeast_Suc_lessThan add.assoc)
    finally show ?thesis .
  next
    case False
    with "1.prems" have "m = 13" by simp
    then show ?thesis by (subst yearLoop.simps) simp
  qed
qed

lemma materializes_sum:
  "list_all2 materializes ss es \<Longrightarrow>
     sum_list (map (\<lambda>s. convertToMonthly (IncomeSource.amount s) (frequency s))
                 (filter IncomeSource.isActive ss))
       = sum_list (map MonthlyIncome.amount (filter MonthlyIncome.isActive es))"
  by (induction rule: list_all2_induct) (auto simp: materializes_def)

lemma breakdownFromData_unfold:
  "calculateIncomeBreakdownFromData es =
     map (percentageOf (calculateMonthlyIncomeFromData es))
       (foldl groupIncome [] (filter MonthlyIncome.isActive es))"
  by (simp add: calculateIncomeBreakdownFromData_def calculateMonthlyIncomeFromData_def Let_def)

lemma breakdown_unfold:
  "calculateIncomeBreakdown ss =
     map (percentageOf (calculateMonthlyIncome ss))
       (foldl groupSource [] (filter IncomeSource.isActive ss))"
  by (simp add: calculateIncomeBreakdown_def calculateMonthlyIncome_def Let_def)

section \<open>Grouping by category\<close>

text \<open>
  The Map keeps one entry per category, and the amount of a category in the breakdown is
  the sum of the monthly amounts of the active records of that category.
\<close>

lemma Map_get_set: "Map_get (Map_set m k v) t = (if t = k then Some v else Map_get m t)"
  by (induction m) auto

lemma get_or_zero_set:
  "get_or_zero (Map_set m k v) t = (if t = k then v else get_or_zero m t)"
  by (simp add: get_or_zero_def Map_get_set)

lemma get_or_zero_Nil: "get_or_zero [] t = 0"
  by (simp add: get_or_zero_def)

lemma keys_Map_set: "fst ` set (Map_set m k v) = insert k (fst ` set m)"
  by (induction m) force+

lemma distinct_Map_set: "distinct (map fst m) \<Longrightarrow> distinct (map fst (Map_set m k v))"
  by (induction m) (auto simp: keys_Map_set)

lemma Map_get_member: "distinct (map fst m) \<Longrightarrow> (t, a) \<in> set m \<Longrightarrow> Map_get m t = Some a"
  by (induction m) (auto simp: rev_image_eqI)

lemma get_or_zero_member:
  "distinct (map fst m) \<Longrightarrow> (t, a) \<in> set m \<Longrightarrow> get_or_zero m t = a"
  by (simp add: get_or_zero_def Map_get_member)

lemma groupIncome_distinct:
  "distinct (map fst m) \<Longrightarrow> distinct (map fst (foldl groupIncome m es))"
  by (induction es arbitrary: m) (simp_all add: groupIncome_def distinct_Map_set)

lemma groupSource_distinct:
  "distinct (map fst m) \<Longrightarrow> distinct (map fst (foldl groupSource m ss))"
  by (induction ss arbitrary: m) (simp_all add: groupSource_def distinct_Map_set)

lemma groupIncome_get:
  "get_or_zero (foldl groupIncome m es) t =
     get_or_zero m t + sum_list (map MonthlyIncome.amount (filter (\<lambda>e. MonthlyIncome.type e = t) es))"
  by (induction es arbitrary: m) (simp_all add: groupIncome_def get_or_zero_set)

lemma groupSource_get:
  "get_or_zero (foldl groupSource m ss) t =
     get_or_zero m t
       + sum_list (map (\<lambda>s. convertToMonthly (IncomeSource.amount s) (frequency s))
                    (filter (\<lambda>s. IncomeSource.type s = t) ss))"
  by (induction ss arbitrary: m) (simp_all add: groupSource_def get_or_zero_set)

lemma groupIncome_keys:
  "fst ` set (foldl groupIncome m es) = fst ` set m \<union> MonthlyIncome.type ` set es"
  by (induction es arbitrary: m) (auto simp: groupIncome_def keys_Map_set)

lemma breakdownFromData_amount:
  assumes "b \<in> set (calculateIncomeBreakdownFromData es)"
  shows "BreakdownItem.amount b =
     sum_list (map MonthlyIncome.amount
       (filter (\<lambda>e. MonthlyIncome.isActive e \<and> MonthlyIncome.type e = BreakdownItem.type b) es))"
proof -
  let ?m = "foldl groupIncome [] (filter MonthlyIncome.isActive es)"
  from assms obtain t a where ta: "(t, a) \<in> set ?m" and b: "b = percentageOf (calculateMonthlyIncomeFromData es) (t, a)"
    by (auto simp: breakdownFromData_unfold)
  have "distinct (map fst ?m)" by (rule groupIncome_distinct) simp
  with ta have "get_or_zero ?m t = a" by (simp add: get_or_zero_member)
  then have "a = sum_list (map MonthlyIncome.amount (filter (\<lambda>e. MonthlyIncome.type e = t) (filter MonthlyIncome.isActive es)))"
    by (simp add: groupIncome_get get_or_zero_Nil)
  with b show ?thesis by (simp add: percentageOf_def conj_commute)
qed

lemma breakdown_amount:
  assumes "b \<in> set (calculateIncomeBreakdown ss)"
  shows "BreakdownItem.amount b =
     sum_list (map (\<lambda>s. convertToMonthly (IncomeSource.amount s) (frequency s))
       (filter (\<lambda>s. IncomeSource.isActive s \<and> IncomeSource.type s = BreakdownItem.type b) ss))"
proof -
  let ?m = "foldl groupSource [] (filter IncomeSource.isActive ss)"
  from assms obtain t a where ta: "(t, a) \<in> set ?m" and b: "b = percentageOf (calculateMonthlyIncome ss) (t, a)"
    by (auto simp: breakdown_unfold)
  have "distinct (map fst ?m)" by (rule groupSource_distinct) simp
  with ta have "get_or_zero ?m t = a" by (simp add: get_or_zero_member)
  then have "a = sum_list (map (\<lambda>s. convertToMonthly (IncomeSource.amount s) (frequency s)) (filter (\<lambda>s. IncomeSource.type s = t) (filter IncomeSource.isActive ss)))"
    by (simp add: groupSource_get get_or_zero_Nil)
  with b show ?thesis by (simp add: percentageOf_def conj_commute)
qed

lemma breakdownFromData_types:
  "distinct (map BreakdownItem.type (calculateIncomeBreakdownFromData es))
   \<and> set (map BreakdownItem.type (calculateIncomeBreakdownFromData es)) =
       MonthlyIncome.type ` {e \<in> set es. MonthlyIncome.isActive e}"
proof -
  have "map BreakdownItem.type (calculateIncomeBreakdownFromData es) =
        map fst (foldl groupIncome [] (filter MonthlyIncome.isActive es))"
    by (simp add: breakdownFromData_unfold percentageOf_def comp_def)
  then show ?thesis
    using groupIncome_distinct [of "[]" "filter MonthlyIncome.isActive es"]
      groupIncome_keys [of "[]" "filter MonthlyIncome.isActive es"]
    by (auto simp: image_iff)
qed

section \<open>Rounding to the nearest double\<close>

lemma normUp_spec:
  "0 < y \<Longrightarrow> 0 < s \<Longrightarrow> normUp y s = (m, c) \<Longrightarrow> 0 < c \<and> m * c = y * s \<and> 2 ^ 52 \<le> m"
proof (induction y s rule: normUp.induct)
  case (1 y s)
  show ?case
  proof (cases "y < 2 ^ 52")
    case True
    with "1.prems" have "normUp (2 * y) (s / 2) = (m, c)"
      by (subst (asm) normUp.simps) simp
    with "1.IH" "1.prems" True show ?thesis by simp
  next
    case False
    with "1.prems" have "(m, c) = (y, s)" by (subst (asm) normUp.simps) simp
    with "1.prems" False show ?thesis by simp
  qed
qed

lemma normDown_spec:
  "2 ^ 52 \<le> y \<Longrightarrow> 0 < s \<Longrightarrow> normDown y s = (m, c) \<Longrightarrow>
     0 < c \<and> m * c = y * s \<and> 2 ^ 52 \<le> m \<and> m < 2 ^ 53"
proof (induction y s rule: normDown.induct)
  case (1 y s)
  show ?case
  proof (cases "2 ^ 53 \<le> y")
    case True
    with "1.prems" have "normDown (y / 2) (2 * s) = (m, c)"
      by (subst (asm) normDown.simps) simp
    with "1.IH" "1.prems" True show ?thesis by simp
  next
    case False
    with "1.prems" have "(m, c) = (y, s)" by (subst (asm) normDown.simps) simp
    with "1.prems" False show ?thesis by simp
  qed
qed

lemma rne_error: "\<bar>of_int (rne y) - y\<bar> \<le> 1 / 2"
  unfolding rne_def Let_def by (simp; linarith)

lemma fl64_error: "\<bar>fl64 x - x\<bar> \<le> \<bar>x\<bar> / 2 ^ 53"
proof (cases "x = 0")
  case True
  then show ?thesis by (simp add: fl64_def)
next
  case False
  obtain y s where up: "normUp \<bar>x\<bar> 1 = (y, s)" by (cases "normUp \<bar>x\<bar> 1")
  obtain m c where down: "normDown y s = (m, c)" by (cases "normDown y s")
  from False up have 1: "0 < s" "y * s = \<bar>x\<bar>" "2 ^ 52 \<le> y"
    using normUp_spec [of "\<bar>x\<bar>" 1 y s] by simp_all
  with down have 2: "0 < c" "m * c = \<bar>x\<bar>" "2 ^ 52 \<le> m"
    using normDown_spec [of y s m c] by simp_all
  have val: "fl64 x = sgn x * (of_int (rne m) * c)"
    using False up down by (simp add: fl64_def)
  have "x = sgn x * (m * c)" using 2 by (simp add: sgn_mult_abs)
  then have "fl64 x - x = sgn x * ((of_int (rne m) - m) * c)"
    using val by (simp add: algebra_simps)
  then have "\<bar>fl64 x - x\<bar> = \<bar>of_int (rne m) - m\<bar> * c"
    using False 2 by (simp add: abs_mult abs_sgn_eq)
  also have "\<dots> \<le> 1 / 2 * c"
    using rne_error [of m] 2 by (intro mult_right_mono) simp_all
  also have "\<dots> \<le> m / 2 ^ 53 * c"
    using 2 by (intro mult_right_mono) simp_all
  also have "\<dots> = \<bar>x\<bar> / 2 ^ 53" using 2 by simp
  finally show ?thesis .
qed

lemma fl64_rounds_within: "rounds_within (1 / 2 ^ 53) fl64"
  unfolding rounds_within_def using fl64_error by simp

lemma exact_rounds_within: "rounds_within 0 (\<lambda>x. x)"
  by (simp add: rounds_within_def)

section \<open>Sums and groups in rounded arithmetic\<close>

lemma rounds_within_bounds:
  assumes "rounds_within u r" and "0 \<le> x"
  shows "(1 - u) * x \<le> r x" and "r x \<le> (1 + u) * x" and "0 \<le> r x"
proof -
  from assms(1) have u: "0 \<le> u" "u < 1" and "\<bar>r x - x\<bar> \<le> u * \<bar>x\<bar>"
    by (simp_all add: rounds_within_def)
  with assms(2) have e: "\<bar>r x - x\<bar> \<le> u * x" by simp
  from e show "(1 - u) * x \<le> r x" by (simp add: algebra_simps abs_le_iff)
  from e show "r x \<le> (1 + u) * x" by (simp add: algebra_simps abs_le_iff)
  have "0 \<le> (1 - u) * x" using u assms(2) by simp
  with \<open>(1 - u) * x \<le> r x\<close> show "0 \<le> r x" by linarith
qed

lemma rounded_fold_bounds:
  assumes r: "rounds_within u r"
  shows "0 \<le> a \<Longrightarrow> \<forall>x \<in> set xs. 0 \<le> x \<Longrightarrow>
     (1 - u) ^ length xs * (a + sum_list xs) \<le> foldl (\<lambda>t x. r (t + x)) a xs
     \<and> foldl (\<lambda>t x. r (t + x)) a xs \<le> (1 + u) ^ length xs * (a + sum_list xs)"
proof (induction xs arbitrary: a)
  case Nil
  then show ?case by simp
next
  case (Cons x xs)
  from r have u: "0 \<le> u" "u < 1" by (auto simp: rounds_within_def)
  let ?a = "r (a + x)" and ?S = "sum_list xs" and ?k = "length xs"
  have ax: "0 \<le> a + x" using Cons.prems by simp
  have S: "0 \<le> ?S" using Cons.prems by (simp add: sum_list_nonneg)
  note b = rounds_within_bounds [OF r ax]
  from Cons.IH [of ?a] b(3) Cons.prems
  have IH: "(1 - u) ^ ?k * (?a + ?S) \<le> foldl (\<lambda>t x. r (t + x)) ?a xs"
      "foldl (\<lambda>t x. r (t + x)) ?a xs \<le> (1 + u) ^ ?k * (?a + ?S)"
    by simp_all
  have "(1 - u) * ?S \<le> ?S" using u S by (simp add: mult_left_le_one_le)
  with b(1) have "(1 - u) * (a + x + ?S) \<le> ?a + ?S" by (simp add: algebra_simps)
  then have "(1 - u) ^ ?k * ((1 - u) * (a + x + ?S)) \<le> (1 - u) ^ ?k * (?a + ?S)"
    using u by (intro mult_left_mono) simp_all
  with IH(1) have "(1 - u) ^ ?k * ((1 - u) * (a + x + ?S)) \<le> foldl (\<lambda>t x. r (t + x)) ?a xs"
    by (rule order_trans [rotated])
  then have lo: "(1 - u) ^ Suc ?k * (a + x + ?S) \<le> foldl (\<lambda>t x. r (t + x)) ?a xs"
    by (simp add: mult_ac)
  have "?S \<le> (1 + u) * ?S" using u S by (simp add: mult_le_cancel_right1)
  with b(2) have "?a + ?S \<le> (1 + u) * (a + x + ?S)" by (simp add: algebra_simps)
  then have "(1 + u) ^ ?k * (?a + ?S) \<le> (1 + u) ^ ?k * ((1 + u) * (a + x + ?S))"
    using u by (intro mult_left_mono) simp_all
  with IH(2) have "foldl (\<lambda>t x. r (t + x)) ?a xs \<le> (1 + u) ^ ?k * ((1 + u) * (a + x + ?S))"
    by (rule order_trans)
  then have hi: "foldl (\<lambda>t x. r (t + x)) ?a xs \<le> (1 + u) ^ Suc ?k * (a + x + ?S)"
    by (simp add: mult_ac)
  from lo hi show ?case by (simp add: add.assoc)
qed

lemma grouped_get:
  "get_or_zero (foldl (\<lambda>m e. Map_set m (k e) (r (get_or_zero m (k e) + v e))) m es) t =
     foldl (\<lambda>a x. r (a + x)) (get_or_zero m t) (map v (filter (\<lambda>e. k e = t) es))"
  by (induction es arbitrary: m) (simp_all add: get_or_zero_set)

lemma grouped_distinct:
  "distinct (map fst m) \<Longrightarrow>
     distinct (map fst (foldl (\<lambda>m e. Map_set m (k e) (r (get_or_zero m (k e) + v e))) m es))"
  by (induction es arbitrary: m) (simp_all add: distinct_Map_set)

lemma grouped_keys:
  "fst ` set (foldl (\<lambda>m e. Map_set m (k e) (r (get_or_zero m (k e) + v e))) m es) =
     fst ` set m \<union> k ` set es"
  by (induction es arbitrary: m) (auto simp: keys_Map_set)

lemma sum_list_absent_key:
  "t \<notin> set ks \<Longrightarrow> (\<Sum>s\<leftarrow>ks. if t = s then c else 0) = (0::real)"
  by (induction ks) auto

lemma sum_list_single_key:
  "distinct ks \<Longrightarrow> t \<in> set ks \<Longrightarrow> (\<Sum>s\<leftarrow>ks. if t = s then c else 0) = (c::real)"
  by (induction ks) (auto simp: sum_list_absent_key)

lemma category_sums_partition:
  "distinct ks \<Longrightarrow> k ` set es \<subseteq> set ks \<Longrightarrow>
     (\<Sum>t\<leftarrow>ks. sum_list (map v (filter (\<lambda>e. k e = t) es))) = sum_list (map (v :: 'e \<Rightarrow> real) es)"
proof (induction es)
  case Nil
  then show ?case by simp
next
  case (Cons e es)
  have one: "(\<Sum>t\<leftarrow>ks. if k e = t then v e else 0) = v e"
    using Cons.prems by (intro sum_list_single_key) auto
  have "(\<Sum>t\<leftarrow>ks. sum_list (map v (filter (\<lambda>e. k e = t) (e # es)))) =
        (\<Sum>t\<leftarrow>ks. (if k e = t then v e else 0) + sum_list (map v (filter (\<lambda>e. k e = t) es)))"
    by (intro arg_cong [where f = sum_list] map_cong) auto
  also have "\<dots> = v e + sum_list (map v es)"
    using Cons by (simp add: sum_list_addf one)
  finally show ?case by simp
qed

lemma grouped_percentage_bounds:
  fixes k :: "'e \<Rightarrow> IncomeType" and v :: "'e \<Rightarrow> real"
  assumes r: "rounds_within u r"
    and nn: "\<forall>e \<in> set es. 0 \<le> v e"
    and T: "T = foldl (\<lambda>t x. r (t + x)) 0 (map v es)"
    and Tpos: "0 < T"
    and rows: "rows = foldl (\<lambda>m e. Map_set m (k e) (r (get_or_zero m (k e) + v e))) [] es"
  shows "100 * ((1 - u) ^ (length es + 2) / (1 + u) ^ length es)
           \<le> sum_list (map (\<lambda>e. percentage (percentageOf_fl r T e)) rows)"
    and "sum_list (map (\<lambda>e. percentage (percentageOf_fl r T e)) rows)
           \<le> 100 * ((1 + u) ^ (length es + 2) / (1 - u) ^ length es)"
proof -
  from r have u: "0 \<le> u" "u < 1" by (auto simp: rounds_within_def)
  define n where "n = length es"
  define S where "S = sum_list (map v es)"
  define A where "A t = sum_list (map v (filter (\<lambda>e. k e = t) es))" for t
  define lo where "lo = (1 - u) ^ n"
  define hi where "hi = (1 + u) ^ n"
  have lo: "0 < lo" "lo \<le> 1" using u by (simp_all add: lo_def power_le_one)
  have hi: "1 \<le> hi" "0 < hi" using u by (simp_all add: hi_def)
  have Tb: "lo * S \<le> T" "T \<le> hi * S"
    using rounded_fold_bounds [OF r, of 0 "map v es"] nn
    by (simp_all add: T S_def lo_def hi_def n_def)
  have Spos: "0 < S"
  proof (rule ccontr)
    assume "\<not> 0 < S"
    then have "hi * S \<le> 0" using hi by (simp add: mult_nonneg_nonpos)
    with Tb Tpos show False by simp
  qed
  have dist: "distinct (map fst rows)"
    unfolding rows by (rule grouped_distinct) simp
  have keys: "k ` set es \<subseteq> set (map fst rows)"
    unfolding rows by (simp add: grouped_keys)
  have part: "(\<Sum>t\<leftarrow>map fst rows. A t) = S"
    unfolding A_def S_def using dist keys by (rule category_sums_partition)
  have row: "100 * ((1 - u)\<^sup>2 * lo / hi) * (A (fst e) / S)
               \<le> percentage (percentageOf_fl r T e)
             \<and> percentage (percentageOf_fl r T e)
               \<le> 100 * ((1 + u)\<^sup>2 * hi / lo) * (A (fst e) / S)"
    if e: "e \<in> set rows" for e
  proof -
    obtain t a where ta: "e = (t, a)" by (cases e)
    let ?xs = "map v (filter (\<lambda>e. k e = t) es)"
    have "get_or_zero rows t = a"
      using dist e ta by (simp add: get_or_zero_member)
    then have a: "a = foldl (\<lambda>a x. r (a + x)) 0 ?xs"
      unfolding rows by (simp add: grouped_get get_or_zero_Nil)
    have xs: "\<forall>x \<in> set ?xs. 0 \<le> x" using nn by auto
    have At: "0 \<le> A t" unfolding A_def using xs by (intro sum_list_nonneg) auto
    have len: "length ?xs \<le> n" by (simp add: n_def)
    from rounded_fold_bounds [OF r, of 0 ?xs] xs
    have fb: "(1 - u) ^ length ?xs * A t \<le> a" "a \<le> (1 + u) ^ length ?xs * A t"
      by (simp_all add: a A_def)
    have "lo \<le> (1 - u) ^ length ?xs"
      unfolding lo_def using len u by (intro power_decreasing) simp_all
    then have "lo * A t \<le> (1 - u) ^ length ?xs * A t"
      using At by (rule mult_right_mono)
    with fb(1) have a_lo: "lo * A t \<le> a" by linarith
    have "(1 + u) ^ length ?xs \<le> hi"
      unfolding hi_def using len u by (intro power_increasing) simp_all
    then have "(1 + u) ^ length ?xs * A t \<le> hi * A t"
      using At by (rule mult_right_mono)
    with fb(2) have a_hi: "a \<le> hi * A t" by linarith
    have a0: "0 \<le> a" using a_lo lo At by (meson mult_nonneg_nonneg less_imp_le order_trans)
    define q where "q = a / T"
    have q0: "0 \<le> q" using a0 Tpos by (simp add: q_def)
    have q_hi: "q \<le> hi * A t / (lo * S)"
      unfolding q_def using a_hi Tb(1) lo Spos hi At
      by (intro frac_le) simp_all
    have q_lo: "lo * A t / (hi * S) \<le> q"
      unfolding q_def using a_lo Tb(2) a0 Tpos
      by (intro frac_le) simp_all
    note b1 = rounds_within_bounds [OF r q0]
    have rq: "0 \<le> r q * 100" using b1(3) by simp
    note b2 = rounds_within_bounds [OF r rq]
    have p: "percentage (percentageOf_fl r T (t, a)) = r (r q * 100)"
      using Tpos by (simp add: percentageOf_fl_def q_def)
    have "r (r q * 100) \<le> (1 + u) * ((1 + u) * q * 100)"
    proof -
      have "r q * 100 \<le> (1 + u) * q * 100" using b1(2) by simp
      then have "(1 + u) * (r q * 100) \<le> (1 + u) * ((1 + u) * q * 100)"
        using u by (intro mult_left_mono) simp_all
      with b2(2) show ?thesis by linarith
    qed
    also have "\<dots> = 100 * (1 + u)\<^sup>2 * q" by (simp add: power2_eq_square)
    also have "\<dots> \<le> 100 * (1 + u)\<^sup>2 * (hi * A t / (lo * S))"
      using q_hi by (intro mult_left_mono) simp_all
    also have "\<dots> = 100 * ((1 + u)\<^sup>2 * hi / lo) * (A t / S)" by simp
    finally have up: "r (r q * 100) \<le> 100 * ((1 + u)\<^sup>2 * hi / lo) * (A t / S)" .
    have "100 * ((1 - u)\<^sup>2 * lo / hi) * (A t / S) = 100 * (1 - u)\<^sup>2 * (lo * A t / (hi * S))"
      by simp
    also have "\<dots> \<le> 100 * (1 - u)\<^sup>2 * q"
      using q_lo by (intro mult_left_mono) simp_all
    also have "\<dots> = (1 - u) * ((1 - u) * q * 100)" by (simp add: power2_eq_square)
    also have "\<dots> \<le> r (r q * 100)"
    proof -
      have "(1 - u) * q * 100 \<le> r q * 100" using b1(1) by simp
      then have "(1 - u) * ((1 - u) * q * 100) \<le> (1 - u) * (r q * 100)"
        using u by (intro mult_left_mono) simp_all
      with b2(1) show ?thesis by linarith
    qed
    finally have down: "100 * ((1 - u)\<^sup>2 * lo / hi) * (A t / S) \<le> r (r q * 100)" .
    show ?thesis unfolding ta fst_conv p using up down by blast
  qed
  have total: "(\<Sum>e\<leftarrow>rows. c * (A (fst e) / S)) = c" for c
  proof -
    have "(\<Sum>e\<leftarrow>rows. c * (A (fst e) / S)) = c / S * (\<Sum>e\<leftarrow>rows. A (fst e))"
      by (simp add: sum_list_const_mult [symmetric] algebra_simps)
    also have "(\<Sum>e\<leftarrow>rows. A (fst e)) = (\<Sum>t\<leftarrow>map fst rows. A t)"
      by (simp add: comp_def)
    finally show ?thesis using part Spos by simp
  qed
  have "(\<Sum>e\<leftarrow>rows. 100 * ((1 - u)\<^sup>2 * lo / hi) * (A (fst e) / S))
          \<le> sum_list (map (\<lambda>e. percentage (percentageOf_fl r T e)) rows)"
    using row by (intro sum_list_mono) auto
  then have "100 * ((1 - u)\<^sup>2 * lo / hi)
          \<le> sum_list (map (\<lambda>e. percentage (percentageOf_fl r T e)) rows)"
    by (simp only: total)
  then show "100 * ((1 - u) ^ (length es + 2) / (1 + u) ^ length es)
           \<le> sum_list (map (\<lambda>e. percentage (percentageOf_fl r T e)) rows)"
    by (simp add: lo_def hi_def n_def power_add power2_eq_square mult_ac)
  have "sum_list (map (\<lambda>e. percentage (percentageOf_fl r T e)) rows)
          \<le> (\<Sum>e\<leftarrow>rows. 100 * ((1 + u)\<^sup>2 * hi / lo) * (A (fst e) / S))"
    using row by (intro sum_list_mono) auto
  then have "sum_list (map (\<lambda>e. percentage (percentageOf_fl r T e)) rows)
          \<le> 100 * ((1 + u)\<^sup>2 * hi / lo)"
    by (simp only: total)
  then show "sum_list (map (\<lambda>e. percentage (percentageOf_fl r T e)) rows)
           \<le> 100 * ((1 + u) ^ (length es + 2) / (1 - u) ^ length es)"
    by (simp add: lo_def hi_def n_def power_add power2_eq_square mult_ac)
qed

lemma monthlyIncomeFromData_fl_fold:
  "calculateMonthlyIncomeFromData_fl r es =
     foldl (\<lambda>t x. r (t + x)) 0 (map MonthlyIncome.amount (filter MonthlyIncome.isActive es))"
  by (simp add: calculateMonthlyIncomeFromData_fl_def foldl_map)

lemma monthlyIncome_fl_fold:
  "calculateMonthlyIncome_fl r ss =
     foldl (\<lambda>t x. r (t + x)) 0
       (map (\<lambda>s. convertToMonthly_fl r (IncomeSource.amount s) (frequency s))
          (filter IncomeSource.isActive ss))"
  by (simp add: calculateMonthlyIncome_fl_def foldl_map)

lemma breakdownFromData_fl_unfold:
  "calculateIncomeBreakdownFromData_fl r es =
     map (percentageOf_fl r (calculateMonthlyIncomeFromData_fl r es))
       (foldl (\<lambda>m e. Map_set m (MonthlyIncome.type e)
                 (r (get_or_zero m (MonthlyIncome.type e) + MonthlyIncome.amount e)))
          [] (filter MonthlyIncome.isActive es))"
proof -
  have "groupIncome_fl r = (\<lambda>m e. Map_set m (MonthlyIncome.type e)
          (r (get_or_zero m (MonthlyIncome.type e) + MonthlyIncome.amount e)))"
    by (intro ext) (simp add: groupIncome_fl_def)
  then show ?thesis
    by (simp add: calculateIncomeBreakdownFromData_fl_def calculateMonthlyIncomeFromData_fl_def
          Let_def)
qed

lemma breakdown_fl_unfold:
  "calculateIncomeBreakdown_fl r ss =
     map (percentageOf_fl r (calculateMonthlyIncome_fl r ss))
       (foldl (\<lambda>m s. Map_set m (IncomeSource.type s)
                 (r (get_or_zero m (IncomeSource.type s)
                     + convertToMonthly_fl r (IncomeSource.amount s) (frequency s))))
          [] (filter IncomeSource.isActive ss))"
proof -
  have "groupSource_fl r = (\<lambda>m s. Map_set m (IncomeSource.type s)
          (r (get_or_zero m (IncomeSource.type s)
              + convertToMonthly_fl r (IncomeSource.amount s) (frequency s))))"
    by (intro ext) (simp add: groupSource_fl_def)
  then show ?thesis
    by (simp add: calculateIncomeBreakdown_fl_def calculateMonthlyIncome_fl_def Let_def)
qed

lemma percentageOf_fl_fields:
  "BreakdownItem.type (percentageOf_fl r T e) = fst e"
  "BreakdownItem.amount (percentageOf_fl r T e) = snd e"
  "percentage (percentageOf_fl r T e) = (if 0 < T then r (r (snd e / T) * 100) else 0)"
  by (simp_all add: percentageOf_fl_def)

lemma grouped_rows:
  assumes "rows = foldl (\<lambda>m e. Map_set m (k e) (r (get_or_zero m (k e) + v e))) [] es"
  shows "distinct (map BreakdownItem.type (map (percentageOf_fl r T) rows))"
    and "set (map BreakdownItem.type (map (percentageOf_fl r T) rows)) = k ` set es"
    and "\<forall>b \<in> set (map (percentageOf_fl r T) rows).
           BreakdownItem.amount b =
             foldl (\<lambda>a x. r (a + x)) 0 (map v (filter (\<lambda>e. k e = BreakdownItem.type b) es))
           \<and> percentage b = (if 0 < T then r (r (BreakdownItem.amount b / T) * 100) else 0)"
proof -
  have dist: "distinct (map fst rows)"
    unfolding assms by (rule grouped_distinct) simp
  have types: "map BreakdownItem.type (map (percentageOf_fl r T) rows) = map fst rows"
    by (simp add: comp_def percentageOf_fl_fields)
  show "distinct (map BreakdownItem.type (map (percentageOf_fl r T) rows))"
    using dist by (simp only: types)
  show "set (map BreakdownItem.type (map (percentageOf_fl r T) rows)) = k ` set es"
    unfolding types using grouped_keys [of k r v "[]" es] by (simp add: assms)
  show "\<forall>b \<in> set (map (percentageOf_fl r T) rows).
           BreakdownItem.amount b =
             foldl (\<lambda>a x. r (a + x)) 0 (map v (filter (\<lambda>e. k e = BreakdownItem.type b) es))
           \<and> percentage b = (if 0 < T then r (r (BreakdownItem.amount b / T) * 100) else 0)"
  proof
    fix b assume "b \<in> set (map (percentageOf_fl r T) rows)"
    then obtain t a where ta: "(t, a) \<in> set rows" and b: "b = percentageOf_fl r T (t, a)"
      by auto
    from dist ta have "get_or_zero rows t = a" by (simp add: get_or_zero_member)
    then have "a = foldl (\<lambda>a x. r (a + x)) 0 (map v (filter (\<lambda>e. k e = t) es))"
      unfolding assms by (simp add: grouped_get get_or_zero_Nil)
    then show "BreakdownItem.amount b =
             foldl (\<lambda>a x. r (a + x)) 0 (map v (filter (\<lambda>e. k e = BreakdownItem.type b) es))
           \<and> percentage b = (if 0 < T then r (r (BreakdownItem.amount b / T) * 100) else 0)"
      by (simp add: b percentageOf_fl_fields)
  qed
qed

lemma convertToMonthly_fl_nonneg:
  "rounds_within u r \<Longrightarrow> 0 \<le> a \<Longrightarrow> 0 \<le> convertToMonthly_fl r a f"
  by (simp add: convertToMonthly_fl_def rounds_within_bounds(3))

lemma breakdownFromData_fl_rows:
  "distinct (map BreakdownItem.type (calculateIncomeBreakdownFromData_fl r es))"
  "set (map BreakdownItem.type (calculateIncomeBreakdownFromData_fl r es)) =
     MonthlyIncome.type ` {e \<in> set es. MonthlyIncome.isActive e}"
  "\<forall>b \<in> set (calculateIncomeBreakdownFromData_fl r es).
     BreakdownItem.amount b =
       calculateMonthlyIncomeFromData_fl r
         (filter (\<lambda>e. MonthlyIncome.type e = BreakdownItem.type b) es)
     \<and> percentage b =
         (if 0 < calculateMonthlyIncomeFromData_fl r es
          then r (r (BreakdownItem.amount b / calculateMonthlyIncomeFromData_fl r es) * 100)
          else 0)"
proof -
  note g = grouped_rows [where k = MonthlyIncome.type and v = MonthlyIncome.amount and r = r
      and T = "calculateMonthlyIncomeFromData_fl r es"
      and es = "filter MonthlyIncome.isActive es", OF refl]
  show "distinct (map BreakdownItem.type (calculateIncomeBreakdownFromData_fl r es))"
    unfolding breakdownFromData_fl_unfold by (rule g(1))
  show "set (map BreakdownItem.type (calculateIncomeBreakdownFromData_fl r es)) =
     MonthlyIncome.type ` {e \<in> set es. MonthlyIncome.isActive e}"
    unfolding breakdownFromData_fl_unfold g(2) by auto
  have c: "filter MonthlyIncome.isActive (filter P es) = filter P (filter MonthlyIncome.isActive es)"
    for P by (simp add: conj_commute)
  show "\<forall>b \<in> set (calculateIncomeBreakdownFromData_fl r es).
     BreakdownItem.amount b =
       calculateMonthlyIncomeFromData_fl r
         (filter (\<lambda>e. MonthlyIncome.type e = BreakdownItem.type b) es)
     \<and> percentage b =
         (if 0 < calculateMonthlyIncomeFromData_fl r es
          then r (r (BreakdownItem.amount b / calculateMonthlyIncomeFromData_fl r es) * 100)
          else 0)"
    using g(3) unfolding breakdownFromData_fl_unfold [symmetric]
    by (simp only: monthlyIncomeFromData_fl_fold [of r "filter _ es"] c)
qed

lemma breakdown_fl_rows:
  "distinct (map BreakdownItem.type (calculateIncomeBreakdown_fl r ss))"
  "set (map BreakdownItem.type (calculateIncomeBreakdown_fl r ss)) =
     IncomeSource.type ` {s \<in> set ss. IncomeSource.isActive s}"
  "\<forall>b \<in> set (calculateIncomeBreakdown_fl r ss).
     BreakdownItem.amount b =
       calculateMonthlyIncome_fl r (filter (\<lambda>s. IncomeSource.type s = BreakdownItem.type b) ss)
     \<and> percentage b =
         (if 0 < calculateMonthlyIncome_fl r ss
          then r (r (BreakdownItem.amount b / calculateMonthlyIncome_fl r ss) * 100)
          else 0)"
proof -
  note g = grouped_rows [where k = IncomeSource.type and r = r
      and v = "\<lambda>s. convertToMonthly_fl r (IncomeSource.amount s) (frequency s)"
      and T = "calculateMonthlyIncome_fl r ss"
      and es = "filter IncomeSource.isActive ss", OF refl]
  show "distinct (map BreakdownItem.type (calculateIncomeBreakdown_fl r ss))"
    unfolding breakdown_fl_unfold by (rule g(1))
  show "set (map BreakdownItem.type (calculateIncomeBreakdown_fl r ss)) =
     IncomeSource.type ` {s \<in> set ss. IncomeSource.isActive s}"
    unfolding breakdown_fl_unfold g(2) by auto
  have c: "filter IncomeSource.isActive (filter P ss) = filter P (filter IncomeSource.isActive ss)"
    for P by (simp add: conj_commute)
  show "\<forall>b \<in> set (calculateIncomeBreakdown_fl r ss).
     BreakdownItem.amount b =
       calculateMonthlyIncome_fl r (filter (\<lambda>s. IncomeSource.type s = BreakdownItem.type b) ss)
     \<and> percentage b =
         (if 0 < calculateMonthlyIncome_fl r ss
          then r (r (BreakdownItem.amount b / calculateMonthlyIncome_fl r ss) * 100)
          else 0)"
    using g(3) unfolding breakdown_fl_unfold [symmetric]
    by (simp only: monthlyIncome_fl_fold [of r "filter _ ss"] c)
qed

lemma breakdownFromData_fl_sum:
  assumes "rounds_within u r" and "0 < calculateMonthlyIncomeFromData_fl r es"
    and "\<forall>e \<in> set es. MonthlyIncome.isActive e \<longrightarrow> 0 \<le> MonthlyIncome.amount e"
  shows "100 * ((1 - u) ^ (length (filter MonthlyIncome.isActive es) + 2)
                 / (1 + u) ^ length (filter MonthlyIncome.isActive es))
           \<le> sum_list (map percentage (calculateIncomeBreakdownFromData_fl r es))"
    and "sum_list (map percentage (calculateIncomeBreakdownFromData_fl r es))
           \<le> 100 * ((1 + u) ^ (length (filter MonthlyIncome.isActive es) + 2)
                      / (1 - u) ^ length (filter MonthlyIncome.isActive es))"
proof -
  have nn: "\<forall>e \<in> set (filter MonthlyIncome.isActive es). 0 \<le> MonthlyIncome.amount e"
    using assms(3) by simp
  note g = grouped_percentage_bounds [where k = MonthlyIncome.type,
      OF assms(1) nn monthlyIncomeFromData_fl_fold assms(2) refl]
  have s: "sum_list (map percentage (calculateIncomeBreakdownFromData_fl r es)) =
      sum_list (map (\<lambda>e. percentage (percentageOf_fl r (calculateMonthlyIncomeFromData_fl r es) e))
        (foldl (\<lambda>m e. Map_set m (MonthlyIncome.type e)
                 (r (get_or_zero m (MonthlyIncome.type e) + MonthlyIncome.amount e)))
          [] (filter MonthlyIncome.isActive es)))"
    by (simp add: breakdownFromData_fl_unfold comp_def)
  show "100 * ((1 - u) ^ (length (filter MonthlyIncome.isActive es) + 2)
                 / (1 + u) ^ length (filter MonthlyIncome.isActive es))
           \<le> sum_list (map percentage (calculateIncomeBreakdownFromData_fl r es))"
    unfolding s by (rule g(1))
  show "sum_list (map percentage (calculateIncomeBreakdownFromData_fl r es))
           \<le> 100 * ((1 + u) ^ (length (filter MonthlyIncome.isActive es) + 2)
                      / (1 - u) ^ length (filter MonthlyIncome.isActive es))"
    unfolding s by (rule g(2))
qed

lemma breakdown_fl_sum:
  assumes "rounds_within u r" and "0 < calculateMonthlyIncome_fl r ss"
    and "\<forall>s \<in> set ss. IncomeSource.isActive s \<longrightarrow> 0 \<le> IncomeSource.amount s"
  shows "100 * ((1 - u) ^ (length (filter IncomeSource.isActive ss) + 2)
                 / (1 + u) ^ length (filter IncomeSource.isActive ss))
           \<le> sum_list (map percentage (calculateIncomeBreakdown_fl r ss))"
    and "sum_list (map percentage (calculateIncomeBreakdown_fl r ss))
           \<le> 100 * ((1 + u) ^ (length (filter IncomeSource.isActive ss) + 2)
                      / (1 - u) ^ length (filter IncomeSource.isActive ss))"
proof -
  have nn: "\<forall>s \<in> set (filter IncomeSource.isActive ss).
      0 \<le> convertToMonthly_fl r (IncomeSource.amount s) (frequency s)"
    using assms(1,3) by (simp add: convertToMonthly_fl_nonneg)
  note g = grouped_percentage_bounds [where k = IncomeSource.type,
      OF assms(1) nn monthlyIncome_fl_fold assms(2) refl]
  have s: "sum_list (map percentage (calculateIncomeBreakdown_fl r ss)) =
      sum_list (map (\<lambda>e. percentage (percentageOf_fl r (calculateMonthlyIncome_fl r ss) e))
        (foldl (\<lambda>m s. Map_set m (IncomeSource.type s)
                 (r (get_or_zero m (IncomeSource.type s)
                     + convertToMonthly_fl r (IncomeSource.amount s) (frequency s))))
          [] (filter IncomeSource.isActive ss)))"
    by (simp add: breakdown_fl_unfold comp_def)
  show "100 * ((1 - u) ^ (length (filter IncomeSource.isActive ss) + 2)
                 / (1 + u) ^ length (filter IncomeSource.isActive ss))
           \<le> sum_list (map percentage (calculateIncomeBreakdown_fl r ss))"
    unfolding s by (rule g(1))
  show "sum_list (map percentage (calculateIncomeBreakdown_fl r ss))
           \<le> 100 * ((1 + u) ^ (length (filter IncomeSource.isActive ss) + 2)
                      / (1 - u) ^ length (filter IncomeSource.isActive ss))"
    unfolding s by (rule g(2))
qed

section \<open>Without rounding, the exact functions\<close>

lemma convertToMonthly_unrounded: "convertToMonthly_fl (\<lambda>x. x) = convertToMonthly"
  by (intro ext) (simp add: convertToMonthly_fl_def convertToMonthly_def)

lemma calculateMonthlyIncome_unrounded: "calculateMonthlyIncome_fl (\<lambda>x. x) = calculateMonthlyIncome"
  by (intro ext)
     (simp add: calculateMonthlyIncome_fl_def calculateMonthlyIncome_def convertToMonthly_unrounded)

lemma calculateMonthlyIncomeFromData_unrounded:
  "calculateMonthlyIncomeFromData_fl (\<lambda>x. x) = calculateMonthlyIncomeFromData"
  by (intro ext) (simp add: calculateMonthlyIncomeFromData_fl_def calculateMonthlyIncomeFromData_def)

lemma yearLoop_unrounded: "yearLoop_fl (\<lambda>x. x) yd m tot = yearLoop yd m tot"
proof (induction yd m tot rule: yearLoop.induct)
  case (1 yd m tot)
  show ?case
  proof (cases "m \<le> 12")
    case True
    with "1.IH" show ?thesis
      by (subst yearLoop_fl.simps, subst yearLoop.simps)
         (simp add: calculateMonthlyIncomeFromData_unrounded)
  next
    case False
    then show ?thesis by (subst yearLoop_fl.simps, subst yearLoop.simps) simp
  qed
qed

lemma calculateSavingsProjection_unrounded:
  "calculateSavingsProjection_fl (\<lambda>x. x) = calculateSavingsProjection"
  by (intro ext)
     (simp add: calculateSavingsProjection_fl_def calculateSavingsProjection_def
        calculateYearlySavings_fl_def calculateYearlySavings_def
        calculateMonthlySavings_fl_def calculateMonthlySavings_def)

lemma calculateIncomeBreakdownFromData_unrounded:
  "calculateIncomeBreakdownFromData_fl (\<lambda>x. x) = calculateIncomeBreakdownFromData"
proof -
  have "groupIncome_fl (\<lambda>x. x) = groupIncome"
    by (intro ext) (simp add: groupIncome_fl_def groupIncome_def)
  moreover have "percentageOf_fl (\<lambda>x. x) = percentageOf"
    by (intro ext) (simp add: percentageOf_fl_def percentageOf_def)
  ultimately show ?thesis
    by (intro ext)
       (simp add: calculateIncomeBreakdownFromData_fl_def calculateIncomeBreakdownFromData_def
          calculateMonthlyIncomeFromData_unrounded)
qed

lemma calculateIncomeBreakdown_unrounded:
  "calculateIncomeBreakdown_fl (\<lambda>x. x) = calculateIncomeBreakdown"
proof -
  have "groupSource_fl (\<lambda>x. x) = groupSource"
    by (intro ext) (simp add: groupSource_fl_def groupSource_def convertToMonthly_unrounded)
  moreover have "percentageOf_fl (\<lambda>x. x) = percentageOf"
    by (intro ext) (simp add: percentageOf_fl_def percentageOf_def)
  ultimately show ?thesis
    by (intro ext)
       (simp add: calculateIncomeBreakdown_fl_def calculateIncomeBreakdown_def
          calculateMonthlyIncome_unrounded)
qed

lemma calculateResultsFromMonthlyData_unrounded:
  "calculateResultsFromMonthlyData_fl (\<lambda>x. x) = calculateResultsFromMonthlyData"
  by (intro ext)
     (simp add: calculateResultsFromMonthlyData_fl_def calculateResultsFromMonthlyData_def
        calculateMonthlyIncomeFromData_unrounded calculateSavingsProjection_unrounded
        calculateIncomeBreakdownFromData_unrounded calculateYearlyIncomeFromData_fl_def
        calculateYearlyIncomeFromData_def yearLoop_unrounded
        calculateYearlySavings_fl_def calculateYearlySavings_def
        calculateMonthlySavings_fl_def calculateMonthlySavings_def)

lemma calculateResults_unrounded: "calculateResults_fl (\<lambda>x. x) = calculateResults"
  by (intro ext)
     (simp add: calculateResults_fl_def calculateResults_def
        calculateMonthlyIncome_unrounded calculateSavingsProjection_unrounded
        calculateIncomeBreakdown_unrounded calculateYearlyIncome_fl_def calculateYearlyIncome_def
        calculateYearlySavings_fl_def calculateYearlySavings_def
        calculateMonthlySavings_fl_def calculateMonthlySavings_def)

section \<open>Values in double precision\<close>

lemma weekly_monthlyIncome:
  "calculateMonthlyIncome_fl fl64 weeklySources = 6670370541841067 / 4398046511104"
  by (simp add: weeklySources_def calculateMonthlyIncome_fl_def convertToMonthly_fl_def
        fl64_def rne_def)

lemma weekly_yearlySavings:
  "calculateYearlySavings_fl fl64 (6670370541841067 / 4398046511104) 10 =
     8004444650209281 / 4398046511104"
  by (simp add: calculateYearlySavings_fl_def calculateMonthlySavings_fl_def fl64_def rne_def)

lemma fl64_values:
  "fl64 500 = 500"
  "fl64 (8004444650209281 / 4398046511104) = 8004444650209281 / 4398046511104"
  "fl64 (10203467905761281 / 4398046511104) = 2320"
  "fl64 (2199023255551999 / 4398046511104) = 2199023255551999 / 4398046511104"
  "fl64 (9119789245425255 / 562949953421312) = 1139973655678157 / 70368744177664"
  "fl64 (36324345744510157 / 70368744177664) = 2270271609031885 / 4398046511104"
  "fl64 (35184372088832003 / 70368744177664) = 8796093022208001 / 17592186044416"
  by (simp_all add: fl64_def rne_def)

lemma weekly_projection:
  "projections (calculateResults_fl fl64 weeklySources 200 300 10) ! 0 =
     \<lparr>years = 1, total = 2320, saved = 8004444650209281 / 4398046511104\<rparr>"
  by (simp add: calculateResults_fl_def projectionYears_def calculateSavingsProjection_fl_def
        Let_def weekly_monthlyIncome weekly_yearlySavings fl64_values)

lemma three_monthlyIncome: "calculateMonthlyIncomeFromData_fl fl64 threeEntries = 3"
  by (simp add: threeEntries_def calculateMonthlyIncomeFromData_fl_def fl64_def rne_def)

lemma three_yearlySavings:
  "calculateYearlySavings_fl fl64 3 15 = 3039929748475085 / 562949953421312"
  by (simp add: calculateYearlySavings_fl_def calculateMonthlySavings_fl_def fl64_def rne_def)

lemma three_projection:
  "projections (calculateResultsFromMonthlyData_fl fl64 threeEntries Map.empty 200 300 15) ! 1 =
     \<lparr>years = 3, total = 2270271609031885 / 4398046511104,
      saved = 1139973655678157 / 70368744177664\<rparr>"
  by (simp add: calculateResultsFromMonthlyData_fl_def projectionYears_def
        calculateSavingsProjection_fl_def Let_def three_monthlyIncome three_yearlySavings
        fl64_values)

lemma fl64_small_values:
  "fl64 1 = 1" "fl64 2 = 2" "fl64 3 = 3"
  "fl64 (1 / 3) = 6004799503160661 / 18014398509481984"
  "fl64 (2 / 3) = 6004799503160661 / 9007199254740992"
  "fl64 (150119987579016525 / 4503599627370496) = 2345624805922133 / 70368744177664"
  "fl64 (150119987579016525 / 2251799813685248) = 2345624805922133 / 35184372088832"
  "fl64 (7036874417766399 / 70368744177664) = 7036874417766399 / 70368744177664"
  by (simp_all add: fl64_def rne_def)

lemma small_total:
  "calculateMonthlyIncomeFromData_fl fl64 smallEntries = 3"
  "calculateMonthlyIncome_fl fl64 smallSources = 3"
  by (simp_all add: smallEntries_def smallSources_def calculateMonthlyIncomeFromData_fl_def
        calculateMonthlyIncome_fl_def convertToMonthly_fl_def fl64_small_values)

lemma small_breakdown:
  "calculateIncomeBreakdownFromData_fl fl64 smallEntries =
     [\<lparr>type = ''other'', amount = 1, percentage = 2345624805922133 / 70368744177664\<rparr>,
      \<lparr>type = ''passive'', amount = 2, percentage = 2345624805922133 / 35184372088832\<rparr>]"
  "calculateIncomeBreakdown_fl fl64 smallSources =
     [\<lparr>type = ''other'', amount = 1, percentage = 2345624805922133 / 70368744177664\<rparr>,
      \<lparr>type = ''passive'', amount = 2, percentage = 2345624805922133 / 35184372088832\<rparr>]"
  unfolding breakdownFromData_fl_unfold breakdown_fl_unfold small_total
  by (simp_all add: smallEntries_def smallSources_def convertToMonthly_fl_def get_or_zero_def
        percentageOf_fl_def fl64_small_values)

lemma zero_total:
  "calculateMonthlyIncomeFromData_fl fl64 zeroEntries = 0"
  "calculateMonthlyIncome_fl fl64 zeroSources = 0"
  by (simp_all add: zeroEntries_def zeroSources_def calculateMonthlyIncomeFromData_fl_def
        calculateMonthlyIncome_fl_def convertToMonthly_fl_def fl64_def)

lemma zero_breakdown:
  "calculateIncomeBreakdownFromData_fl fl64 zeroEntries =
     [\<lparr>type = ''other'', amount = 0, percentage = 0\<rparr>]"
  "calculateIncomeBreakdown_fl fl64 zeroSources =
     [\<lparr>type = ''other'', amount = 0, percentage = 0\<rparr>]"
  unfolding breakdownFromData_fl_unfold breakdown_fl_unfold zero_total
  by (simp_all add: zeroEntries_def zeroSources_def convertToMonthly_fl_def get_or_zero_def
        percentageOf_fl_def fl64_def)

section \<open>Properties of the calculations\<close>

subsection \<open>Frequency normalizer\<close>

text \<open>
  Claim C1. For every amount \<open>a\<close>, \<open>convertToMonthly\<close> returns \<open>a\<close> for the
  frequency monthly, \<open>a * 52 / 12\<close> for weekly, \<open>a / 12\<close> for yearly, 0 for one_time,
  and 0 for every string that is none of the four frequencies; it has no failing branch.
\<close>

theorem convertToMonthly_cases:
  "convertToMonthly a ''monthly'' = a
   \<and> convertToMonthly a ''weekly'' = a * 52 / 12
   \<and> convertToMonthly a ''yearly'' = a / 12
   \<and> convertToMonthly a ''one_time'' = 0
   \<and> (f \<notin> {''monthly'', ''weekly'', ''yearly'', ''one_time''} \<longrightarrow> convertToMonthly a f = 0)"
  by (simp add: convertToMonthly_def)

theorem convertToMonthly_cases_witness:
  "''daily'' \<notin> {''monthly'', ''weekly'', ''yearly'', ''one_time''}
   \<and> convertToMonthly 100 ''daily'' = 0
   \<and> convertToMonthly 100 ''weekly'' = 1300 / 3
   \<and> convertToMonthly 1200 ''yearly'' = 100"
  using convertToMonthly_cases [of 100 "''daily''"] convertToMonthly_cases [of 1200 "''daily''"]
  by simp

subsection \<open>Breakdown aggregator\<close>

text \<open>
  In double precision the percentages of two entries of 1 and 2 are 33.33333333333333
  and 66.66666666666666, and their sum is 99.99999999999999.
\<close>

theorem breakdown_sum_not_100_counterexample:
  "0 < calculateMonthlyIncomeFromData_fl fl64 smallEntries
   \<and> map percentage (calculateIncomeBreakdownFromData_fl fl64 smallEntries) =
       [2345624805922133 / 70368744177664, 2345624805922133 / 35184372088832]
   \<and> sum_list (map percentage (calculateIncomeBreakdownFromData_fl fl64 smallEntries)) =
       7036874417766399 / 70368744177664
   \<and> sum_list (map percentage (calculateIncomeBreakdownFromData_fl fl64 smallEntries)) \<noteq> 100
   \<and> fl64 (sum_list (map percentage (calculateIncomeBreakdownFromData_fl fl64 smallEntries)))
       \<noteq> 100"
  by (simp add: small_total small_breakdown fl64_small_values)

text \<open>
  Claim C2, amended. For every list of income records, of either shape, the breakdown
  holds one row per category of the active records; the amount of a row is the total of
  the active records of its category, and its percentage is (amount / total) * 100, as
  the code computes it, when the total of the active records is strictly positive, and 0
  when the total is 0. The percentages sum to 100 up to rounding: when the total is
  strictly positive and the amounts are not negative, the sum lies between
  \<open>100 * (1 - u) ^ (n + 2) / (1 + u) ^ n\<close> and \<open>100 * (1 + u) ^ (n + 2) / (1 - u) ^ n\<close>
  for \<open>n\<close> active records and a rounding of relative error at most \<open>u\<close>, which is
  \<open>1 / 2 ^ 53\<close> for doubles; with \<open>u = 0\<close>, exact arithmetic, the sum is 100.
\<close>

theorem breakdown_percentages_rounded:
  "distinct (map BreakdownItem.type (calculateIncomeBreakdownFromData_fl r es))
   \<and> set (map BreakdownItem.type (calculateIncomeBreakdownFromData_fl r es)) =
       MonthlyIncome.type ` {e \<in> set es. MonthlyIncome.isActive e}
   \<and> (\<forall>b \<in> set (calculateIncomeBreakdownFromData_fl r es).
        BreakdownItem.amount b =
          calculateMonthlyIncomeFromData_fl r
            (filter (\<lambda>e. MonthlyIncome.type e = BreakdownItem.type b) es)
        \<and> percentage b =
            (if 0 < calculateMonthlyIncomeFromData_fl r es
             then r (r (BreakdownItem.amount b / calculateMonthlyIncomeFromData_fl r es) * 100)
             else 0))
   \<and> (calculateMonthlyIncomeFromData_fl r es = 0 \<longrightarrow>
        (\<forall>b \<in> set (calculateIncomeBreakdownFromData_fl r es). percentage b = 0))
   \<and> (rounds_within u r \<and> 0 < calculateMonthlyIncomeFromData_fl r es
        \<and> (\<forall>e \<in> set es. MonthlyIncome.isActive e \<longrightarrow> 0 \<le> MonthlyIncome.amount e) \<longrightarrow>
        100 * ((1 - u) ^ (length (filter MonthlyIncome.isActive es) + 2)
               / (1 + u) ^ length (filter MonthlyIncome.isActive es))
          \<le> sum_list (map percentage (calculateIncomeBreakdownFromData_fl r es))
        \<and> sum_list (map percentage (calculateIncomeBreakdownFromData_fl r es))
          \<le> 100 * ((1 + u) ^ (length (filter MonthlyIncome.isActive es) + 2)
                    / (1 - u) ^ length (filter MonthlyIncome.isActive es)))
   \<and> distinct (map BreakdownItem.type (calculateIncomeBreakdown_fl r ss))
   \<and> set (map BreakdownItem.type (calculateIncomeBreakdown_fl r ss)) =
       IncomeSource.type ` {s \<in> set ss. IncomeSource.isActive s}
   \<and> (\<forall>b \<in> set (calculateIncomeBreakdown_fl r ss).
        BreakdownItem.amount b =
          calculateMonthlyIncome_fl r
            (filter (\<lambda>s. IncomeSource.type s = BreakdownItem.type b) ss)
        \<and> percentage b =
            (if 0 < calculateMonthlyIncome_fl r ss
             then r (r (BreakdownItem.amount b / calculateMonthlyIncome_fl r ss) * 100)
             else 0))
   \<and> (calculateMonthlyIncome_fl r ss = 0 \<longrightarrow>
        (\<forall>b \<in> set (calculateIncomeBreakdown_fl r ss). percentage b = 0))
   \<and> (rounds_within u r \<and> 0 < calculateMonthlyIncome_fl r ss
        \<and> (\<forall>s \<in> set ss. IncomeSource.isActive s \<longrightarrow> 0 \<le> IncomeSource.amount s) \<longrightarrow>
        100 * ((1 - u) ^ (length (filter IncomeSource.isActive ss) + 2)
               / (1 + u) ^ length (filter IncomeSource.isActive ss))
          \<le> sum_list (map percentage (calculateIncomeBreakdown_fl r ss))
        \<and> sum_list (map percentage (calculateIncomeBreakdown_fl r ss))
          \<le> 100 * ((1 + u) ^ (length (filter IncomeSource.isActive ss) + 2)
                    / (1 - u) ^ length (filter IncomeSource.isActive ss)))"
proof -
  note d = breakdownFromData_fl_rows [of r es]
  note s = breakdown_fl_rows [of r ss]
  have d0: "calculateMonthlyIncomeFromData_fl r es = 0 \<longrightarrow>
        (\<forall>b \<in> set (calculateIncomeBreakdownFromData_fl r es). percentage b = 0)"
    using d(3) by simp
  have s0: "calculateMonthlyIncome_fl r ss = 0 \<longrightarrow>
        (\<forall>b \<in> set (calculateIncomeBreakdown_fl r ss). percentage b = 0)"
    using s(3) by simp
  show ?thesis
    using d d0 s s0 breakdownFromData_fl_sum [of u r es] breakdown_fl_sum [of u r ss]
    by blast
qed

theorem breakdown_percentages_rounded_witness:
  "rounds_within (1 / 2 ^ 53) fl64
   \<and> 0 < calculateMonthlyIncomeFromData_fl fl64 smallEntries
   \<and> map MonthlyIncome.amount smallEntries = [1, 2]
   \<and> 100 * ((1 - 1 / 2 ^ 53) ^ (length (filter MonthlyIncome.isActive smallEntries) + 2)
             / (1 + 1 / 2 ^ 53) ^ length (filter MonthlyIncome.isActive smallEntries))
       \<le> sum_list (map percentage (calculateIncomeBreakdownFromData_fl fl64 smallEntries))
   \<and> sum_list (map percentage (calculateIncomeBreakdownFromData_fl fl64 smallEntries))
       \<le> 100 * ((1 + 1 / 2 ^ 53) ^ (length (filter MonthlyIncome.isActive smallEntries) + 2)
                 / (1 - 1 / 2 ^ 53) ^ length (filter MonthlyIncome.isActive smallEntries))
   \<and> 0 < calculateMonthlyIncome_fl fl64 smallSources
   \<and> map IncomeSource.amount smallSources = [1, 2]
   \<and> 100 * ((1 - 1 / 2 ^ 53) ^ (length (filter IncomeSource.isActive smallSources) + 2)
             / (1 + 1 / 2 ^ 53) ^ length (filter IncomeSource.isActive smallSources))
       \<le> sum_list (map percentage (calculateIncomeBreakdown_fl fl64 smallSources))
   \<and> sum_list (map percentage (calculateIncomeBreakdown_fl fl64 smallSources))
       \<le> 100 * ((1 + 1 / 2 ^ 53) ^ (length (filter IncomeSource.isActive smallSources) + 2)
                 / (1 - 1 / 2 ^ 53) ^ length (filter IncomeSource.isActive smallSources))
   \<and> calculateMonthlyIncomeFromData_fl fl64 zeroEntries = 0
   \<and> percentage (hd (calculateIncomeBreakdownFromData_fl fl64 zeroEntries)) = 0
   \<and> calculateMonthlyIncome_fl fl64 zeroSources = 0
   \<and> percentage (hd (calculateIncomeBreakdown_fl fl64 zeroSources)) = 0
   \<and> rounds_within 0 (\<lambda>x. x)
   \<and> sum_list (map percentage (calculateIncomeBreakdownFromData_fl (\<lambda>x. x) sampleEntries)) = 100
   \<and> sum_list (map percentage (calculateIncomeBreakdown_fl (\<lambda>x. x) sampleSources)) = 100"
proof -
  have e: "rounds_within 0 (\<lambda>x. x)" by (rule exact_rounds_within)
  have te: "0 < calculateMonthlyIncomeFromData_fl (\<lambda>x. x) sampleEntries"
      "0 < calculateMonthlyIncome_fl (\<lambda>x. x) sampleSources"
    by (simp_all add: calculateMonthlyIncomeFromData_unrounded calculateMonthlyIncome_unrounded
          sampleEntries_def sampleSources_def calculateMonthlyIncomeFromData_def
          calculateMonthlyIncome_def convertToMonthly_def)
  have ae: "\<forall>e \<in> set sampleEntries. MonthlyIncome.isActive e \<longrightarrow> 0 \<le> MonthlyIncome.amount e"
      "\<forall>s \<in> set sampleSources. IncomeSource.isActive s \<longrightarrow> 0 \<le> IncomeSource.amount s"
    by (simp_all add: sampleEntries_def sampleSources_def)
  from breakdown_percentages_rounded [of "\<lambda>x. x" sampleEntries 0 sampleSources] e te ae
  have "100 * ((1 - 0) ^ (length (filter MonthlyIncome.isActive sampleEntries) + 2)
               / (1 + 0) ^ length (filter MonthlyIncome.isActive sampleEntries))
          \<le> sum_list (map percentage (calculateIncomeBreakdownFromData_fl (\<lambda>x. x) sampleEntries))
      \<and> sum_list (map percentage (calculateIncomeBreakdownFromData_fl (\<lambda>x. x) sampleEntries))
          \<le> 100 * ((1 + 0) ^ (length (filter MonthlyIncome.isActive sampleEntries) + 2)
                    / (1 - 0) ^ length (filter MonthlyIncome.isActive sampleEntries))
      \<and> 100 * ((1 - 0) ^ (length (filter IncomeSource.isActive sampleSources) + 2)
               / (1 + 0) ^ length (filter IncomeSource.isActive sampleSources))
          \<le> sum_list (map percentage (calculateIncomeBreakdown_fl (\<lambda>x. x) sampleSources))
      \<and> sum_list (map percentage (calculateIncomeBreakdown_fl (\<lambda>x. x) sampleSources))
          \<le> 100 * ((1 + 0) ^ (length (filter IncomeSource.isActive sampleSources) + 2)
                    / (1 - 0) ^ length (filter IncomeSource.isActive sampleSources))"
    by blast
  then have x: "sum_list (map percentage (calculateIncomeBreakdownFromData_fl (\<lambda>x. x) sampleEntries)) = 100"
      "sum_list (map percentage (calculateIncomeBreakdown_fl (\<lambda>x. x) sampleSources)) = 100"
    by simp_all
  have r: "rounds_within (1 / 2 ^ 53) fl64" by (rule fl64_rounds_within)
  have t: "0 < calculateMonthlyIncomeFromData_fl fl64 smallEntries"
      "0 < calculateMonthlyIncome_fl fl64 smallSources"
    by (simp_all add: small_total)
  have a: "\<forall>e \<in> set smallEntries. MonthlyIncome.isActive e \<longrightarrow> 0 \<le> MonthlyIncome.amount e"
      "\<forall>s \<in> set smallSources. IncomeSource.isActive s \<longrightarrow> 0 \<le> IncomeSource.amount s"
      "map MonthlyIncome.amount smallEntries = [1, 2]"
      "map IncomeSource.amount smallSources = [1, 2]"
    by (simp_all add: smallEntries_def smallSources_def)
  have h: "hd (calculateIncomeBreakdownFromData_fl fl64 zeroEntries)
        \<in> set (calculateIncomeBreakdownFromData_fl fl64 zeroEntries)"
      "hd (calculateIncomeBreakdown_fl fl64 zeroSources)
        \<in> set (calculateIncomeBreakdown_fl fl64 zeroSources)"
    by (simp_all add: zero_breakdown)
  from breakdown_percentages_rounded [of fl64 smallEntries "1 / 2 ^ 53" smallSources]
    breakdown_percentages_rounded [of fl64 zeroEntries "1 / 2 ^ 53" zeroSources]
    r t a h zero_total e x
  show ?thesis by blast
qed

subsection \<open>Months to goal\<close>



subsection \<open>Savings projection\<close>

text \<open>
  The projection is not clamped at years = 0: a negative horizon takes savings away from
  the baseline.
\<close>

theorem calculateSavingsProjection_negative_years_counterexample:
  "(- 1 :: number) \<le> 0
   \<and> calculateSavingsProjection 0 0 1000 10 (- 1) = - 1200
   \<and> calculateSavingsProjection 0 0 1000 10 (- 1) \<noteq> 0 + 0
   \<and> calculateSavingsProjection 0 0 1000 10 (- 1) \<noteq> calculateSavingsProjection 0 0 1000 10 0"
  by (simp add: calculateSavingsProjection_def calculateYearlySavings_def
        calculateMonthlySavings_def Let_def)

text \<open>
  Claim C4, amended. For all inputs, \<open>calculateSavingsProjection\<close> equals
  current savings + already saved + (monthly income * percentage / 100 * 12) * years, and
  at years = 0 this is the baseline sum, current savings + already saved. Negative years
  are not clamped: the same formula applies to them.
\<close>

theorem calculateSavingsProjection_formula:
  "calculateSavingsProjection cs al mi sp y = cs + al + (mi * sp / 100 * 12) * y
   \<and> calculateSavingsProjection cs al mi sp 0 = cs + al"
  by (simp add: calculateSavingsProjection_def calculateYearlySavings_def
        calculateMonthlySavings_def Let_def)

subsection \<open>Results composer\<close>

text \<open>
  Claim C5. The result of \<open>calculateResultsFromMonthlyData\<close> holds the projections
  for the years 1, 3, 5 and 10, in this order and no others: each has as \<open>total\<close> the
  savings projection of that year, baseline + yearly savings * years, and as \<open>saved\<close>
  the yearly savings * years with no baseline in it. Its breakdown is the breakdown of the
  entries of the current month: the data of the year has no part in it.
\<close>

theorem composer_projections_and_breakdown:
  "map years (projections (calculateResultsFromMonthlyData cur yd cs al sp)) = [1, 3, 5, 10]
   \<and> map total (projections (calculateResultsFromMonthlyData cur yd cs al sp)) =
       map (\<lambda>y. cs + al + (calculateMonthlyIncomeFromData cur * sp / 100 * 12) * y) [1, 3, 5, 10]
   \<and> map total (projections (calculateResultsFromMonthlyData cur yd cs al sp)) =
       map (calculateSavingsProjection cs al (calculateMonthlyIncomeFromData cur) sp) [1, 3, 5, 10]
   \<and> map saved (projections (calculateResultsFromMonthlyData cur yd cs al sp)) =
       map (\<lambda>y. yearlySavings (calculateResultsFromMonthlyData cur yd cs al sp) * y) [1, 3, 5, 10]
   \<and> yearlySavings (calculateResultsFromMonthlyData cur yd cs al sp) =
       calculateMonthlyIncomeFromData cur * sp / 100 * 12
   \<and> incomeBreakdown (calculateResultsFromMonthlyData cur yd cs al sp) =
       calculateIncomeBreakdownFromData cur
   \<and> incomeBreakdown (calculateResultsFromMonthlyData cur yd' cs al sp) =
       incomeBreakdown (calculateResultsFromMonthlyData cur yd cs al sp)
   \<and> projections (calculateResultsFromMonthlyData sampleEntries Map.empty 200 300 10) =
       [\<lparr>years = 1, total = 4220, saved = 3720\<rparr>, \<lparr>years = 3, total = 11660, saved = 11160\<rparr>,
        \<lparr>years = 5, total = 19100, saved = 18600\<rparr>, \<lparr>years = 10, total = 37700, saved = 37200\<rparr>]"
  by (simp add: calculateResultsFromMonthlyData_def projectionYears_def
        calculateSavingsProjection_def calculateYearlySavings_def calculateMonthlySavings_def
        sampleEntries_def calculateMonthlyIncomeFromData_def Let_def)

subsection \<open>Goal progress\<close>

text \<open>
  Claim C6. For non-negative current and target, \<open>calculateGoalProgress\<close> is 0 when
  the target is 0 and the minimum of current / target * 100 and 100 otherwise; the result
  lies between 0 and 100. In particular the progress at (50, 100) is 50, at (150, 100) it
  is 100, and at (x, 0) it is 0 for every x.
\<close>

theorem calculateGoalProgress_clamped:
  assumes "0 \<le> c" and "0 \<le> t"
  shows "calculateGoalProgress c t = (if t = 0 then 0 else min (c / t * 100) 100)
         \<and> calculateGoalProgress c t \<le> 100
         \<and> 0 \<le> calculateGoalProgress c t
         \<and> calculateGoalProgress 50 100 = 50
         \<and> calculateGoalProgress 150 100 = 100
         \<and> calculateGoalProgress x 0 = 0"
  using assms by (simp add: calculateGoalProgress_def)

theorem calculateGoalProgress_clamped_witness:
  "(0::number) \<le> 30 \<and> (0::number) \<le> 120
   \<and> calculateGoalProgress 30 120 = 25
   \<and> calculateGoalProgress 30 120 \<le> 100
   \<and> 0 \<le> calculateGoalProgress 30 120"
  using calculateGoalProgress_clamped [of 30 120] by simp

subsection \<open>Equivalence of the aggregation modes\<close>

text \<open>
  Claim C7. When the entries are the materialisation of the sources (of all of them,
  or of the active ones only), \<open>calculateMonthlyIncome\<close> over the sources equals
  \<open>calculateMonthlyIncomeFromData\<close> over the entries.
\<close>

theorem aggregation_modes_equivalent:
  assumes "list_all2 materializes sources entries
           \<or> list_all2 materializes (filter IncomeSource.isActive sources) entries"
  shows "calculateMonthlyIncome sources = calculateMonthlyIncomeFromData entries"
  using assms
proof
  assume "list_all2 materializes sources entries"
  then show ?thesis
    by (simp add: calculateMonthlyIncome_sum calculateMonthlyIncomeFromData_sum materializes_sum)
next
  assume "list_all2 materializes (filter IncomeSource.isActive sources) entries"
  from materializes_sum [OF this] show ?thesis
    by (simp add: calculateMonthlyIncome_sum calculateMonthlyIncomeFromData_sum)
qed

theorem aggregation_modes_equivalent_witness:
  "list_all2 materializes sampleSources sampleEntries
   \<and> calculateMonthlyIncome sampleSources = 3100
   \<and> calculateMonthlyIncomeFromData sampleEntries = 3100"
proof -
  have m: "list_all2 materializes sampleSources sampleEntries"
    by (simp add: sampleSources_def sampleEntries_def materializes_def convertToMonthly_def)
  have "calculateMonthlyIncomeFromData sampleEntries = 3100"
    by (simp add: sampleEntries_def calculateMonthlyIncomeFromData_def)
  with m aggregation_modes_equivalent [of sampleSources sampleEntries] show ?thesis
    by simp
qed

subsection \<open>Yearly income from entries\<close>

text \<open>
  Claim C8. For every year map, \<open>calculateYearlyIncomeFromData\<close> is the sum over the
  months 1 to 12 of the monthly aggregation of the entries of the month, where a month
  that the map does not hold contributes 0, as does a month with no entries.
\<close>

theorem calculateYearlyIncomeFromData_sum:
  "calculateYearlyIncomeFromData yd =
     (\<Sum>m = 1..12. case yd m of None \<Rightarrow> 0 | Some es \<Rightarrow> calculateMonthlyIncomeFromData es)
   \<and> calculateMonthlyIncomeFromData [] = 0"
proof
  have eq: "calculateMonthlyIncomeFromData (monthIncomes yd m) =
      (case yd m of None \<Rightarrow> 0 | Some es \<Rightarrow> calculateMonthlyIncomeFromData es)" for m
    by (simp add: monthIncomes_def calculateMonthlyIncomeFromData_def split: option.split)
  have months: "{1..<13} = {1..12::nat}" by auto
  have "calculateYearlyIncomeFromData yd =
      0 + (\<Sum>m = 1..<13. calculateMonthlyIncomeFromData (monthIncomes yd m))"
    unfolding calculateYearlyIncomeFromData_def by (rule yearLoop_sum) simp
  then show "calculateYearlyIncomeFromData yd =
     (\<Sum>m = 1..12. case yd m of None \<Rightarrow> 0 | Some es \<Rightarrow> calculateMonthlyIncomeFromData es)"
    by (simp only: eq months add_0)
next
  show "calculateMonthlyIncomeFromData [] = 0"
    by (simp add: calculateMonthlyIncomeFromData_def)
qed

subsection \<open>Scenario generator\<close>

text \<open>
  Claim C9. For every list of percentages, \<open>createWhatIfScenarios\<close> gives one scenario
  per percentage, in order, each computed from its own percentage alone: the monthly
  savings and the projections at 5 and 10 years with that percentage. For the
  percentages 10 and 20, a monthly income of 5000 and no savings, the monthly savings are
  500 and 1000 and the projections at 5 years are 30000 and 60000.
\<close>

theorem createWhatIfScenarios_independent:
  "createWhatIfScenarios mi cs al (Some ps) =
     map (\<lambda>p. \<lparr>savingsPercentage = p, monthlyIncome = mi, monthlySavings = mi * p / 100,
               projection5Years = cs + al + (mi * p / 100 * 12) * 5,
               projection10Years = cs + al + (mi * p / 100 * 12) * 10\<rparr>) ps
   \<and> length (createWhatIfScenarios mi cs al (Some ps)) = length ps
   \<and> map WhatIfScenario.monthlySavings (createWhatIfScenarios 5000 0 0 (Some [10, 20])) = [500, 1000]
   \<and> map projection5Years (createWhatIfScenarios 5000 0 0 (Some [10, 20])) = [30000, 60000]"
  by (simp add: createWhatIfScenarios_def createWhatIfScenario_def calculateSavingsProjection_def
        calculateYearlySavings_def calculateMonthlySavings_def Let_def)

subsection \<open>Baseline of the projections\<close>

text \<open>
  In double precision a weekly source of 350 at 10 percent, with a baseline of 200 + 300,
  has the total 2320 and the saved amount 1820.0000000000002 after one year: their
  difference is 499.9999999999998, not 500. An entry of 3 at 15 percent gives
  500.00000000000006 after three years.
\<close>

theorem projections_total_minus_saved_counterexample:
  "total (projections (calculateResults_fl fl64 weeklySources 200 300 10) ! 0) = 2320
   \<and> saved (projections (calculateResults_fl fl64 weeklySources 200 300 10) ! 0) =
       8004444650209281 / 4398046511104
   \<and> fl64 (total (projections (calculateResults_fl fl64 weeklySources 200 300 10) ! 0)
           - saved (projections (calculateResults_fl fl64 weeklySources 200 300 10) ! 0)) =
       2199023255551999 / 4398046511104
   \<and> fl64 (200 + 300) = 500
   \<and> fl64 (total (projections (calculateResults_fl fl64 weeklySources 200 300 10) ! 0)
           - saved (projections (calculateResults_fl fl64 weeklySources 200 300 10) ! 0))
       \<noteq> fl64 (200 + 300)
   \<and> fl64 (total (projections
               (calculateResultsFromMonthlyData_fl fl64 threeEntries Map.empty 200 300 15) ! 1)
           - saved (projections
               (calculateResultsFromMonthlyData_fl fl64 threeEntries Map.empty 200 300 15) ! 1))
       \<noteq> fl64 (200 + 300)"
  unfolding weekly_projection three_projection by (simp add: fl64_values)

text \<open>
  Claim C10, amended. In the result of either composer,
  \<open>calculateResultsFromMonthlyData\<close> or \<open>calculateResults\<close>, every projection
  satisfies total = (current savings + already saved) + saved, with the additions of the
  code: in double precision as in exact arithmetic. The difference total - saved is the
  baseline in exact arithmetic only.
\<close>

theorem projections_total_baseline_plus_saved:
  "(\<forall>p \<in> set (projections (calculateResultsFromMonthlyData_fl r cur yd cs al sp)).
       total p = r (r (cs + al) + saved p))
   \<and> (\<forall>p \<in> set (projections (calculateResults_fl r srcs cs al sp)).
       total p = r (r (cs + al) + saved p))
   \<and> (\<forall>p \<in> set (projections (calculateResultsFromMonthlyData cur yd cs al sp)).
       total p = cs + al + saved p)
   \<and> (\<forall>p \<in> set (projections (calculateResults srcs cs al sp)). total p = cs + al + saved p)"
  by (simp add: calculateResultsFromMonthlyData_fl_def calculateResults_fl_def
        calculateResultsFromMonthlyData_def calculateResults_def projectionYears_def
        calculateSavingsProjection_fl_def calculateSavingsProjection_def Let_def)

theorem projections_total_baseline_plus_saved_witness:
  "length (projections (calculateResults_fl fl64 weeklySources 200 300 10)) = 4
   \<and> total (projections (calculateResults_fl fl64 weeklySources 200 300 10) ! 0) = 2320
   \<and> total (projections (calculateResults_fl fl64 weeklySources 200 300 10) ! 0) =
       fl64 (fl64 (200 + 300)
             + saved (projections (calculateResults_fl fl64 weeklySources 200 300 10) ! 0))
   \<and> total (projections
         (calculateResultsFromMonthlyData_fl fl64 threeEntries Map.empty 200 300 15) ! 1) =
       fl64 (fl64 (200 + 300)
             + saved (projections
                 (calculateResultsFromMonthlyData_fl fl64 threeEntries Map.empty 200 300 15) ! 1))
   \<and> total (projections (calculateResults weeklySources 200 300 10) ! 0) =
       200 + 300 + saved (projections (calculateResults weeklySources 200 300 10) ! 0)"
proof -
  have l: "length (projections (calculateResults_fl fl64 weeklySources 200 300 10)) = 4"
      "length (projections
         (calculateResultsFromMonthlyData_fl fl64 threeEntries Map.empty 200 300 15)) = 4"
      "length (projections (calculateResults weeklySources 200 300 10)) = 4"
    by (simp_all add: calculateResults_fl_def calculateResultsFromMonthlyData_fl_def
          calculateResults_def projectionYears_def Let_def)
  then have m: "projections (calculateResults_fl fl64 weeklySources 200 300 10) ! 0
        \<in> set (projections (calculateResults_fl fl64 weeklySources 200 300 10))"
      "projections (calculateResultsFromMonthlyData_fl fl64 threeEntries Map.empty 200 300 15) ! 1
        \<in> set (projections
             (calculateResultsFromMonthlyData_fl fl64 threeEntries Map.empty 200 300 15))"
      "projections (calculateResults weeklySources 200 300 10) ! 0
        \<in> set (projections (calculateResults weeklySources 200 300 10))"
    by (simp_all only: nth_mem zero_less_numeral one_less_numeral_iff semiring_norm)
  have v: "total (projections (calculateResults_fl fl64 weeklySources 200 300 10) ! 0) = 2320"
    by (simp only: weekly_projection Projection.simps)
  from projections_total_baseline_plus_saved [of fl64 threeEntries Map.empty 200 300 15 weeklySources]
    projections_total_baseline_plus_saved [of fl64 threeEntries Map.empty 200 300 10 weeklySources]
    m l(1) v
  show ?thesis by blast
qed

end
